theory Spec2Isabelle
  imports Main "HOL-Library.AList" "HOL-Library.Finite_Map" "HOL-Library.Word"
begin

unbundle bit_operations_syntax

section \<open>JavaScript values\<close>

text \<open>
  The values that metrics, payloads and timestamps range over. Numbers are the
  integer-valued doubles, negative zero and \<open>NaN\<close>: \<open>JNum 0\<close> is \<open>+0\<close> and
  \<open>JNegZero\<close> is \<open>-0\<close>. The infinities and fractional values behave like any other
  number that is not zero in every function below and are not represented.
  A plain object is the finite map of its own enumerable properties, an array the list of
  its elements.
\<close>

datatype jsval =
    Undefined
  | Null
  | JBool bool
  | JNum int
  | JNegZero
  | JNaN
  | JBigInt int
  | JStr string
  | JArr "jsval list"
  | JObj "(string, jsval) fmap"

datatype js_error = TypeError | RangeError

text \<open>Truthiness, as tested by \<open>||\<close>, \<open>!\<close> and \<open>if\<close>.\<close>

fun truthy :: "jsval \<Rightarrow> bool" where
  "truthy Undefined = False"
| "truthy Null = False"
| "truthy (JBool b) = b"
| "truthy (JNum n) = (n \<noteq> 0)"
| "truthy JNegZero = False"
| "truthy JNaN = False"
| "truthy (JBigInt n) = (n \<noteq> 0)"
| "truthy (JStr s) = (s \<noteq> [])"
| "truthy (JArr xs) = True"
| "truthy (JObj m) = True"

text \<open>\<open>typeof v !== "object"\<close>: \<open>null\<close>, arrays and objects have type \<open>"object"\<close>.\<close>

fun typeof_not_object :: "jsval \<Rightarrow> bool" where
  "typeof_not_object Null = False"
| "typeof_not_object (JArr xs) = False"
| "typeof_not_object (JObj m) = False"
| "typeof_not_object v = True"

text \<open>
  \<open>a === b\<close> and \<open>a !== b\<close> for a primitive \<open>a\<close> (the only place the source
  evaluates them): strict equality holds when both are the same primitive, except that
  \<open>NaN\<close> is unequal to itself, and the two zeros are strictly equal to each other.
\<close>

definition strict_eq :: "jsval \<Rightarrow> jsval \<Rightarrow> bool" where
  "strict_eq a b =
     (a \<noteq> JNaN \<and> (a = b \<or> (a = JNum 0 \<and> b = JNegZero) \<or> (a = JNegZero \<and> b = JNum 0)))"

definition strict_neq :: "jsval \<Rightarrow> jsval \<Rightarrow> bool" where
  "strict_neq a b = (\<not> strict_eq a b)"

text \<open>
  \<open>util.isDeepStrictEqual(a, b)\<close> compares primitives by \<open>Object.is\<close>, which takes
  \<open>NaN\<close> equal to itself and tells \<open>+0\<close> from \<open>-0\<close>, and arrays and plain objects
  by their elements and own enumerable properties, compared in the same way. On the
  values above that is equality of the terms.
\<close>

definition isDeepStrictEqual :: "jsval \<Rightarrow> jsval \<Rightarrow> bool" where
  "isDeepStrictEqual a b = (a = b)"

text \<open>Decimal rendering of integers, for property keys.\<close>

fun string_of_nat :: "nat \<Rightarrow> string" where
  "string_of_nat n =
     (if n < 10 then [''0123456789'' ! n]
      else string_of_nat (n div 10) @ [''0123456789'' ! (n mod 10)])"

definition string_of_int :: "int \<Rightarrow> string" where
  "string_of_int i =
     (if i < 0 then CHR ''-'' # string_of_nat (nat (- i)) else string_of_nat (nat i))"

fun join :: "string \<Rightarrow> string list \<Rightarrow> string" where
  "join sep [] = []"
| "join sep [x] = x"
| "join sep (x # y # ys) = x @ sep @ join sep (y # ys)"

text \<open>
  Conversion of a value to a property key, as \<open>obj[v]\<close> does it: a string is its own key,
  any other value is rendered by \<open>String(v)\<close>.
\<close>

fun toKey :: "jsval \<Rightarrow> string" where
  "toKey Undefined = ''undefined''"
| "toKey Null = ''null''"
| "toKey (JBool b) = (if b then ''true'' else ''false'')"
| "toKey (JNum n) = string_of_int n"
| "toKey JNegZero = ''0''"
| "toKey JNaN = ''NaN''"
| "toKey (JBigInt n) = string_of_int n"
| "toKey (JStr s) = s"
| "toKey (JArr xs) =
     join '','' (map (\<lambda>x. if x = Undefined \<or> x = Null then [] else toKey x) xs)"
| "toKey (JObj m) = ''[object Object]''"

section \<open>Metrics\<close>

text \<open>
  A Sparkplug metric. A field that the object does not carry reads as \<open>Undefined\<close>;
  \<open>properties\<close> is \<open>None\<close> when the metric has no property bag, and otherwise the
  bag as an association list from property name to \<open>{value, type}\<close>.
\<close>

record property =
  pvalue :: jsval
  ptype :: string

record metric =
  name :: jsval
  malias :: jsval
  mtype :: string
  mvalue :: jsval
  timestamp :: jsval
  isNull :: jsval
  isTransient :: jsval
  properties :: "(string \<times> property) list option"

text \<open>\<open>s.search(/^GET/g) > -1\<close>: the string starts with \<open>GET\<close>.\<close>

definition starts_GET :: "string \<Rightarrow> bool" where
  "starts_GET s = (take 3 s = ''GET'')"

text \<open>
  \<open>metric.properties.method.value.search(/^GET/g) > -1\<close> for a metric whose property bag
  is \<open>ps\<close>: a \<open>TypeError\<close> when there is no \<open>method\<close> property or its value is not a
  string.
\<close>

definition method_is_GET :: "(string \<times> property) list \<Rightarrow> js_error + bool" where
  "method_is_GET ps =
     (case map_of ps ''method'' of
        None \<Rightarrow> Inl TypeError
      | Some p \<Rightarrow> (case pvalue p of JStr s \<Rightarrow> Inr (starts_GET s) | _ \<Rightarrow> Inl TypeError))"

section \<open>The metric store (class \<open>Metrics\<close>)\<close>

text \<open>
  The four indices are plain objects (\<open>{}\<close>) used as dictionaries. An index is the
  association list of its own properties in the order of their creation:
  \<open>AList.update\<close> overwrites a key where it stands and appends a new one.

  A plain object inherits the members of \<open>Object.prototype\<close>. A read \<open>index[k]\<close> of a
  key that is no own property finds them: eleven functions, and under \<open>__proto__\<close> an
  accessor that yields \<open>Object.prototype\<close> itself. All of them are truthy.
\<close>

definition prototype_functions :: "string list" where
  "prototype_functions =
     [''constructor'', ''__defineGetter__'', ''__defineSetter__'', ''hasOwnProperty'',
      ''__lookupGetter__'', ''__lookupSetter__'', ''isPrototypeOf'', ''propertyIsEnumerable'',
      ''toString'', ''valueOf'', ''toLocaleString'']"

datatype inherited = ProtoFunction string | ObjectPrototype

definition inherited_member :: "string \<Rightarrow> inherited option" where
  "inherited_member k =
     (if k \<in> set prototype_functions then Some (ProtoFunction k)
      else if k = ''__proto__'' then Some ObjectPrototype
      else None)"

text \<open>
  The own properties \<open>length\<close> and \<open>name\<close> of the function found under the key \<open>k\<close>:
  the number of its parameters, and its name, which is the key except for
  \<open>constructor\<close>, the function \<open>Object\<close>.
\<close>

definition function_length :: "string \<Rightarrow> nat" where
  "function_length k =
     (if k \<in> set [''__defineGetter__'', ''__defineSetter__''] then 2
      else if k \<in> set [''toString'', ''valueOf'', ''toLocaleString''] then 0
      else 1)"

definition function_name :: "string \<Rightarrow> string" where
  "function_name k = (if k = ''constructor'' then ''Object'' else k)"

text \<open>
  The assignment \<open>index[k] = i\<close> of a number: it creates or overwrites an own property,
  except under the key \<open>__proto__\<close>, whose setter ignores a value that is no object.
\<close>

definition assign_number :: "string \<Rightarrow> nat \<Rightarrow> (string \<times> nat) list \<Rightarrow> (string \<times> nat) list" where
  "assign_number k i al = (if k = ''__proto__'' then al else AList.update k i al)"

text \<open>
  \<open>Object.keys\<close> lists the own keys: first those that are canonical array indices (a
  decimal numeral without a leading zero, below \<open>2^32 - 1\<close>) in ascending order, then the
  others in the order of their creation.
\<close>

definition digit_value :: "char \<Rightarrow> nat" where
  "digit_value c = of_char c - 48"

definition numeral_value :: "string \<Rightarrow> nat" where
  "numeral_value k = foldl (\<lambda>n c. 10 * n + digit_value c) 0 k"

definition is_array_index :: "string \<Rightarrow> bool" where
  "is_array_index k \<longleftrightarrow>
     k \<noteq> [] \<and> list_all (\<lambda>c. c \<in> set ''0123456789'') k \<and>
     (hd k = CHR ''0'' \<longrightarrow> length k = 1) \<and> numeral_value k < 4294967295"

definition object_keys :: "(string \<times> 'a) list \<Rightarrow> string list" where
  "object_keys al =
     sort_key numeral_value (filter is_array_index (map fst al)) @
     filter (\<lambda>k. \<not> is_array_index k) (map fst al)"

text \<open>
  The metric objects of one store are taken to be distinct objects, so that an assignment to
  the metric at one position changes that position only.
\<close>

record Metrics =
  array :: "metric list"
  addrIndex :: "(string \<times> nat list) list"
  addrPathIndex :: "(string \<times> (string \<times> nat) list) list"
  nameIndex :: "(string \<times> nat) list"
  aliasIndex :: "(string \<times> nat) list"

text \<open>\<open>arr[i]\<close> for an index that may be \<open>undefined\<close> or out of range.\<close>

definition at_index :: "'a list \<Rightarrow> nat option \<Rightarrow> 'a option" where
  "at_index xs i = (case i of None \<Rightarrow> None | Some n \<Rightarrow> if n < length xs then Some (xs ! n) else None)"

text \<open>\<open>metric.name || ""\<close> as a key.\<close>

definition name_key :: "metric \<Rightarrow> string" where
  "name_key m = (if truthy (name m) then toKey (name m) else [])"

text \<open>
  The guard of the loop body of \<open>#buildIndices\<close>,
  \<open>metric.properties != null && metric.properties.address != null &&
  metric.properties.path != null && metric.properties.method.value.search(/^GET/g) > -1\<close>,
  evaluated left to right, together with the two keys \<open>addr\<close> and \<open>path\<close> that the body
  reads when the guard holds.
\<close>

definition index_keys :: "metric \<Rightarrow> js_error + (string \<times> string) option" where
  "index_keys m =
     (case properties m of
        None \<Rightarrow> Inr None
      | Some ps \<Rightarrow>
          (case map_of ps ''address'' of
             None \<Rightarrow> Inr None
           | Some a \<Rightarrow>
               (case map_of ps ''path'' of
                  None \<Rightarrow> Inr None
                | Some p \<Rightarrow>
                    (case method_is_GET ps of
                       Inl e \<Rightarrow> Inl e
                     | Inr g \<Rightarrow>
                         if g then Inr (Some (toKey (pvalue a), toKey (pvalue p)))
                         else Inr None))))"

text \<open>\<open>index[k]\<close> for an own key whose entry is a list or a dictionary, \<open>[]\<close> when absent.\<close>

definition entries :: "(string \<times> 'a list) list \<Rightarrow> string \<Rightarrow> 'a list" where
  "entries al k = (case map_of al k of None \<Rightarrow> [] | Some l \<Rightarrow> l)"

text \<open>
  One iteration of the loop of \<open>#buildIndices\<close>, for the metric \<open>m\<close> at position \<open>i\<close>.
  The name index is written first. For a metric that passes the guard,
  \<open>!this.#addrIndex[addr]\<close> holds only if \<open>addr\<close> is neither an own key nor the name of an
  inherited member; an inherited member is left in place, it has no \<open>push\<close>, and the call
  raises a \<open>TypeError\<close>. Otherwise the position is pushed onto the address index twice
  and filed under the path. The two address indices are only written here, both under
  \<open>addr\<close>, so that the test \<open>!this.#addrPathIndex[addr]\<close> has the outcome of the first.
\<close>

definition index_metric :: "nat \<Rightarrow> metric \<Rightarrow> Metrics \<Rightarrow> js_error + Metrics" where
  "index_metric i m s =
     (let s1 = s\<lparr>nameIndex := assign_number (name_key m) i (nameIndex s)\<rparr> in
      case index_keys m of
        Inl e \<Rightarrow> Inl e
      | Inr None \<Rightarrow> Inr s1
      | Inr (Some (addr, path)) \<Rightarrow>
          if map_of (addrIndex s1) addr = None \<and> inherited_member addr \<noteq> None
          then Inl TypeError
          else
            Inr (s1\<lparr>addrIndex :=
                       AList.update addr (entries (addrIndex s1) addr @ [i] @ [i]) (addrIndex s1),
                     addrPathIndex :=
                       AList.update addr (assign_number path i (entries (addrPathIndex s1) addr))
                         (addrPathIndex s1)\<rparr>))"

primrec build_loop :: "(nat \<times> metric) list \<Rightarrow> Metrics \<Rightarrow> js_error + Metrics" where
  "build_loop [] s = Inr s"
| "build_loop (im # rest) s =
     (case index_metric (fst im) (snd im) s of
        Inl e \<Rightarrow> Inl e
      | Inr s' \<Rightarrow> build_loop rest s')"

definition buildIndices :: "Metrics \<Rightarrow> js_error + Metrics" where
  "buildIndices s = build_loop (enumerate 0 (array s)) s"

text \<open>The constructor. An exception of \<open>#buildIndices\<close> leaves no store behind.\<close>

definition new_Metrics :: "metric list \<Rightarrow> js_error + Metrics" where
  "new_Metrics metricArr =
     buildIndices \<lparr>array = metricArr, addrIndex = [], addrPathIndex = [],
                   nameIndex = [], aliasIndex = []\<rparr>"

definition add :: "Metrics \<Rightarrow> metric list \<Rightarrow> js_error + Metrics" where
  "add s metrics = buildIndices (s\<lparr>array := array s @ metrics\<rparr>)"


definition addresses :: "Metrics \<Rightarrow> string list" where
  "addresses s = object_keys (addrPathIndex s)"

text \<open>
  The three assignments of every setter, on the metric at position \<open>i\<close>:
  \<open>value\<close>, \<open>timestamp || Date.now()\<close> and \<open>value === null\<close>. \<open>now\<close> is the reading
  of the clock.
\<close>

definition assign_value :: "metric \<Rightarrow> jsval \<Rightarrow> jsval \<Rightarrow> int \<Rightarrow> metric" where
  "assign_value m v ts now =
     m\<lparr>mvalue := v,
       timestamp := (if truthy ts then ts else JNum now),
       isNull := JBool (v = Null)\<rparr>"

text \<open>
  A setter on the position that an index lookup produced: assigning to a property of
  \<open>undefined\<close> is a \<open>TypeError\<close>, raised by the first assignment, before any change.
\<close>

definition set_at :: "Metrics \<Rightarrow> nat option \<Rightarrow> jsval \<Rightarrow> jsval \<Rightarrow> int \<Rightarrow> js_error + metric \<times> Metrics" where
  "set_at s i v ts now =
     (case at_index (array s) i of
        None \<Rightarrow> Inl TypeError
      | Some m \<Rightarrow>
          (let m' = assign_value m v ts now
           in Inr (m', s\<lparr>array := (array s)[the i := m']\<rparr>)))"

text \<open>
  \<open>this.#array[this.#nameIndex[name]]\<close>: both reads are of objects that exist, so nothing
  is raised. For a name that is no own key the inner read yields \<open>undefined\<close> or an
  inherited member, a function or \<open>Object.prototype\<close>, and the array has no element
  under any of these: the result is \<open>undefined\<close> (\<open>Inr None\<close>). The getters share the
  result type of the operations that can raise.
\<close>

definition getByName :: "Metrics \<Rightarrow> string \<Rightarrow> js_error + metric option" where
  "getByName s nm = Inr (at_index (array s) (map_of (nameIndex s) nm))"

definition setValueByName :: "Metrics \<Rightarrow> string \<Rightarrow> jsval \<Rightarrow> jsval \<Rightarrow> int \<Rightarrow> js_error + metric \<times> Metrics" where
  "setValueByName s nm v ts now = set_at s (map_of (nameIndex s) nm) v ts now"

definition setValueByIndex :: "Metrics \<Rightarrow> nat \<Rightarrow> jsval \<Rightarrow> jsval \<Rightarrow> int \<Rightarrow> js_error + metric \<times> Metrics" where
  "setValueByIndex s index v ts now = set_at s (Some index) v ts now"

definition getByAlias :: "Metrics \<Rightarrow> string \<Rightarrow> js_error + metric option" where
  "getByAlias s al = Inr (at_index (array s) (map_of (aliasIndex s) al))"

definition setValueByAlias :: "Metrics \<Rightarrow> string \<Rightarrow> jsval \<Rightarrow> jsval \<Rightarrow> int \<Rightarrow> js_error + metric \<times> Metrics" where
  "setValueByAlias s al v ts now = set_at s (map_of (aliasIndex s) al) v ts now"


text \<open>
  \<open>Object.keys(this.#addrPathIndex[addr] || {})\<close>: an inherited member has no enumerable
  own property.
\<close>

definition getPathsForAddr :: "Metrics \<Rightarrow> string \<Rightarrow> string list" where
  "getPathsForAddr s addr = object_keys (entries (addrPathIndex s) addr)"

text \<open>
  What \<open>this.#addrPathIndex[addr][path]\<close> selects in the array.

  Under an own key \<open>addr\<close> stands a plain object: its own key \<open>path\<close> holds a position,
  and any other path yields \<open>undefined\<close> or an inherited member, under which the array
  has no element.

  When \<open>addr\<close> is no own key and names no inherited member, the outer read yields
  \<open>undefined\<close>, and reading a property of it is a \<open>TypeError\<close>. When \<open>addr\<close> is
  \<open>__proto__\<close> the inner read is of \<open>Object.prototype\<close> and yields a function,
  \<open>null\<close> or \<open>undefined\<close>. When \<open>addr\<close> names an inherited function, the inner read
  is of that function: \<open>length\<close> is a number and so a position of the array;
  \<open>name\<close> is a string, under which the array has one of the methods it inherits itself,
  unless the name is \<open>Object\<close>; \<open>caller\<close> and \<open>arguments\<close> are accessors of
  \<open>Function.prototype\<close> that raise a \<open>TypeError\<close> for a built-in function; every
  other property is a function, an object or \<open>undefined\<close>.
\<close>

datatype selected = Position "nat option" | ArrayMethod string

definition select_by_addrPath :: "Metrics \<Rightarrow> string \<Rightarrow> string \<Rightarrow> js_error + selected" where
  "select_by_addrPath s addr path =
     (case map_of (addrPathIndex s) addr of
        Some ps \<Rightarrow> Inr (Position (map_of ps path))
      | None \<Rightarrow>
          (case inherited_member addr of
             None \<Rightarrow> Inl TypeError
           | Some ObjectPrototype \<Rightarrow> Inr (Position None)
           | Some (ProtoFunction k) \<Rightarrow>
               if path = ''length'' then Inr (Position (Some (function_length k)))
               else if path = ''name'' then
                 (if function_name k \<in> set prototype_functions
                  then Inr (ArrayMethod (function_name k))
                  else Inr (Position None))
               else if path = ''caller'' \<or> path = ''arguments'' then Inl TypeError
               else Inr (Position None)))"

text \<open>
  What a lookup by address and path returns: \<open>undefined\<close>, a metric, or a method of the
  array.
\<close>

datatype found = NotFound | Found metric | BuiltinMethod string

definition getByAddrPath :: "Metrics \<Rightarrow> string \<Rightarrow> string \<Rightarrow> js_error + found" where
  "getByAddrPath s addr path =
     (case select_by_addrPath s addr path of
        Inl e \<Rightarrow> Inl e
      | Inr (Position i) \<Rightarrow>
          Inr (case at_index (array s) i of None \<Rightarrow> NotFound | Some m \<Rightarrow> Found m)
      | Inr (ArrayMethod k) \<Rightarrow> Inr (BuiltinMethod k))"

text \<open>
  The setter evaluates the same selection for each of its assignments. On a method of the
  array the assignments set three properties of that function object, which nothing here
  reads, and the function is returned; the store is as before.
\<close>

definition setValueByAddrPath ::
  "Metrics \<Rightarrow> string \<Rightarrow> string \<Rightarrow> jsval \<Rightarrow> jsval \<Rightarrow> int \<Rightarrow> js_error + found \<times> Metrics" where
  "setValueByAddrPath s addr path v ts now =
     (case select_by_addrPath s addr path of
        Inl e \<Rightarrow> Inl e
      | Inr (Position i) \<Rightarrow>
          (case set_at s i v ts now of
             Inl e \<Rightarrow> Inl e
           | Inr r \<Rightarrow> Inr (Found (fst r), snd r))
      | Inr (ArrayMethod k) \<Rightarrow> Inr (BuiltinMethod k, s))"

definition length_Metrics :: "Metrics \<Rightarrow> nat" where
  "length_Metrics s = length (array s)"

subsection \<open>What the index loop files under an address\<close>

text \<open>
  \<open>get_address m\<close> is the address that the guard of \<open>#buildIndices\<close> reads from the
  metric (none when the guard fails), \<open>index_ok m\<close> says that the loop body does not raise
  on the metric, neither in the guard nor at an address that names an inherited member, and
  \<open>pushed addr xs\<close> is what the loop over the positions and metrics \<open>xs\<close> appends to the
  address index at \<open>addr\<close>.
\<close>

definition get_address :: "metric \<Rightarrow> string option" where
  "get_address m = (case index_keys m of Inr (Some ap) \<Rightarrow> Some (fst ap) | _ \<Rightarrow> None)"

definition index_ok :: "metric \<Rightarrow> bool" where
  "index_ok m =
     (case index_keys m of
        Inl e \<Rightarrow> False
      | Inr None \<Rightarrow> True
      | Inr (Some ap) \<Rightarrow> inherited_member (fst ap) = None)"

definition pushed :: "string \<Rightarrow> (nat \<times> metric) list \<Rightarrow> nat list" where
  "pushed addr xs =
     concat (map (\<lambda>im. if get_address (snd im) = Some addr then [fst im, fst im] else []) xs)"


section \<open>Reading typed values from a buffer (\<open>parseValFromBuffer\<close>)\<close>

text \<open>
  A Node \<open>Buffer\<close> is the list of its bytes. A read yields a JavaScript value, or for the
  floating-point reads the bytes of the IEEE-754 encoding, most significant first, which
  are not interpreted further. Offsets are integers (\<open>parseInt\<close> can also yield \<open>NaN\<close>,
  which is not represented).
\<close>

type_synonym byte = "8 word"

datatype bufval = Val jsval | Float32 "byte list" | Float64 "byte list"

text \<open>The suffix that selects the read: \<open>byteOrder\<close> 4321, 1234 and 3412.\<close>

definition getEndianString :: "jsval \<Rightarrow> string" where
  "getEndianString endianness =
     (if endianness = JNum 4321 then ''BE''
      else if endianness = JNum 1234 then ''LE''
      else if endianness = JNum 3412 then ''PDP''
      else [])"

text \<open>The unsigned value of a byte sequence, most significant byte first, and last.\<close>

definition be_val :: "byte list \<Rightarrow> int" where
  "be_val bs = foldl (\<lambda>acc b. acc * 256 + uint b) 0 bs"

definition le_val :: "byte list \<Rightarrow> int" where
  "le_val bs = be_val (rev bs)"

text \<open>The two's complement reading of an unsigned \<open>w\<close>-bit value.\<close>

definition as_signed :: "nat \<Rightarrow> int \<Rightarrow> int" where
  "as_signed w v = (if 2 ^ (w - 1) \<le> v then v - 2 ^ w else v)"

text \<open>
  The bytes that \<open>buf.readXxx(offset)\<close> reads, \<open>n\<close> of them: a \<open>RangeError\<close> when they
  do not lie inside the buffer.
\<close>

definition read_bytes :: "byte list \<Rightarrow> int \<Rightarrow> nat \<Rightarrow> js_error + byte list" where
  "read_bytes buf offset n =
     (if 0 \<le> offset \<and> nat offset + n \<le> length buf
      then Inr (take n (drop (nat offset) buf))
      else Inl RangeError)"

definition read_with :: "(byte list \<Rightarrow> bufval) \<Rightarrow> nat \<Rightarrow> byte list \<Rightarrow> int \<Rightarrow> js_error + bufval" where
  "read_with f n buf offset =
     (case read_bytes buf offset n of Inl e \<Rightarrow> Inl e | Inr bs \<Rightarrow> Inr (f bs))"

text \<open>
  \<open>Number(b)\<close> for an unsigned 64-bit \<open>BigInt\<close>: the nearest double, ties to even, which
  is \<open>b\<close> itself below \<open>2^53\<close>.
\<close>

definition number_of_u64 :: "int \<Rightarrow> int" where
  "number_of_u64 n =
     (let e = length (filter (\<lambda>k. 2 ^ (53 + k) \<le> n) [0..<11]);
          q = n div 2 ^ e;
          r = n mod 2 ^ e
      in if e = 0 then n
         else (if 2 ^ (e - 1) < r \<or> (r = 2 ^ (e - 1) \<and> odd q) then q + 1 else q) * 2 ^ e)"

text \<open>
  \<open>buf.subarray(byteAddr, byteAddr + n).swap16()\<close>. \<open>subarray\<close> clamps its bounds to the
  buffer (a negative bound counts from the end) and shares the bytes with \<open>buf\<close>;
  \<open>swap16\<close> exchanges the two bytes of every 16-bit unit in place and raises a
  \<open>RangeError\<close> on an odd length. The result is the swapped view, or the error, together
  with the buffer of the caller as the call leaves it.
\<close>

fun swap16 :: "byte list \<Rightarrow> byte list" where
  "swap16 (a # b # rest) = b # a # swap16 rest"
| "swap16 rest = rest"

definition clamp_index :: "nat \<Rightarrow> int \<Rightarrow> nat" where
  "clamp_index len i = (if i < 0 then nat (max (int len + i) 0) else min (nat i) len)"

definition swapped_subarray ::
  "byte list \<Rightarrow> int \<Rightarrow> nat \<Rightarrow> (js_error + byte list) \<times> byte list" where
  "swapped_subarray buf byteAddr n =
     (let lo = clamp_index (length buf) byteAddr;
          hi = clamp_index (length buf) (byteAddr + int n);
          sub = take (hi - lo) (drop lo buf)
      in if odd (length sub) then (Inl RangeError, buf)
         else (Inr (swap16 sub), take lo buf @ swap16 sub @ drop (lo + length sub) buf))"

definition read_swapped ::
  "(byte list \<Rightarrow> bufval) \<Rightarrow> nat \<Rightarrow> byte list \<Rightarrow> int \<Rightarrow> (js_error + bufval) \<times> byte list" where
  "read_swapped f n buf byteAddr =
     (case swapped_subarray buf byteAddr n of
        (Inl e, buf') \<Rightarrow> (Inl e, buf')
      | (Inr sub, buf') \<Rightarrow> (read_with f n sub 0, buf'))"

text \<open>
  \<open>parseValFromBuffer(type, endianness, byteAddr, buf, bit)\<close>, with the cases of the
  \<open>switch\<close> in the order of the source. The result is the value returned or the error
  raised, and the buffer afterwards.
\<close>

definition parseValFromBuffer ::
  "string \<Rightarrow> jsval \<Rightarrow> int \<Rightarrow> byte list \<Rightarrow> int option \<Rightarrow> (js_error + bufval) \<times> byte list" where
  "parseValFromBuffer type endianness byteAddr buf bitpos =
     (let fullType =
            (if type \<notin> set [''boolean'', ''int8'', ''uInt8'']
             then type @ getEndianString (if truthy endianness then endianness else Null)
             else type);
          uintBE = (\<lambda>bs. Val (JNum (be_val bs)));
          uintLE = (\<lambda>bs. Val (JNum (le_val bs)));
          intBE = (\<lambda>w bs. Val (JNum (as_signed w (be_val bs))));
          intLE = (\<lambda>w bs. Val (JNum (as_signed w (le_val bs))))
      in
      if fullType = ''boolean'' then
        (case bitpos of
           None \<Rightarrow> (Inr (Val (JNum (- 1))), buf)
         | Some k \<Rightarrow>
             if k = 0 then (Inr (Val (JNum (- 1))), buf)
             else (case read_bytes buf byteAddr 1 of
                     Inr [b] \<Rightarrow> (Inr (Val (JBool (bit b (nat (k mod 32))))), buf)
                   | _ \<Rightarrow> (Inr (Val (JBool False)), buf)))
      else if fullType = ''int8'' then (read_with (intBE 8) 1 buf byteAddr, buf)
      else if fullType = ''int16BE'' then (read_with (intBE 16) 2 buf byteAddr, buf)
      else if fullType = ''int16LE'' then (read_with (intLE 16) 2 buf byteAddr, buf)
      else if fullType = ''int32BE'' then (read_with (intBE 32) 4 buf byteAddr, buf)
      else if fullType = ''int32LE'' then (read_with (intLE 32) 4 buf byteAddr, buf)
      else if fullType = ''int64BE'' then
        (read_with (\<lambda>bs. Val (JBigInt (as_signed 64 (be_val bs)))) 8 buf byteAddr, buf)
      else if fullType = ''int64LE'' then
        (read_with (\<lambda>bs. Val (JBigInt (as_signed 64 (le_val bs)))) 8 buf byteAddr, buf)
      else if fullType = ''int64PDP'' then
        read_swapped (\<lambda>bs. Val (JBigInt (as_signed 64 (be_val bs)))) 8 buf byteAddr
      else if fullType = ''int32PDP'' then read_swapped (intBE 32) 4 buf byteAddr
      else if fullType = ''uInt8'' then (read_with uintBE 1 buf byteAddr, buf)
      else if fullType = ''uInt16BE'' then (read_with uintBE 2 buf byteAddr, buf)
      else if fullType = ''uInt16LE'' then (read_with uintLE 2 buf byteAddr, buf)
      else if fullType = ''uInt32BE'' then (read_with uintBE 4 buf byteAddr, buf)
      else if fullType = ''uInt32LE'' then (read_with uintLE 4 buf byteAddr, buf)
      else if fullType = ''uInt32PDP'' then read_swapped uintBE 4 buf byteAddr
      else if fullType = ''dateTimeBE'' \<or> fullType = ''uInt64BE'' then
        (read_with (\<lambda>bs. Val (JNum (number_of_u64 (be_val bs)))) 8 buf byteAddr, buf)
      else if fullType = ''dateTimeLE'' \<or> fullType = ''uInt64LE'' then
        (read_with (\<lambda>bs. Val (JNum (number_of_u64 (le_val bs)))) 8 buf byteAddr, buf)
      else if fullType = ''dateTimePDP'' \<or> fullType = ''uint64PDP'' then
        read_swapped (\<lambda>bs. Val (JBigInt (be_val bs))) 8 buf byteAddr
      else if fullType = ''floatBE'' then (read_with Float32 4 buf byteAddr, buf)
      else if fullType = ''floatLE'' then (read_with (\<lambda>bs. Float32 (rev bs)) 4 buf byteAddr, buf)
      else if fullType = ''floatPDP'' then read_swapped Float32 4 buf byteAddr
      else if fullType = ''doubleBE'' then (read_with Float64 8 buf byteAddr, buf)
      else if fullType = ''doubleLE'' then (read_with (\<lambda>bs. Float64 (rev bs)) 8 buf byteAddr, buf)
      else if fullType = ''doublePDP'' then read_swapped Float64 8 buf byteAddr
      else if fullType = ''uuid'' then (Inr (Val (JStr (map (\<lambda>b. char_of (unat b)) buf))), buf)
      else if fullType = ''String'' then (Inr (Val (JStr (map (\<lambda>b. char_of (unat b)) buf))), buf)
      else (Inr (Val Undefined), buf))"

section \<open>The config rehasher (\<open>rehashTag\<close>)\<close>

text \<open>A tag of the external configuration, with the fields that \<open>rehashTag\<close> reads.\<close>

record schemaMetric =
  tag_Name :: jsval
  tag_value :: jsval
  tag_type :: jsval
  tag_recordToDB :: jsval
  tag_method :: jsval
  tag_address :: jsval
  tag_path :: jsval
  tag_engUnit :: jsval
  tag_engLow :: jsval
  tag_engHigh :: jsval
  tag_deadBand :: jsval
  tag_tooltip :: jsval
  tag_docs :: jsval

text \<open>
  \<open>s.replace(/[BL]E/g, "")\<close>: every occurrence of \<open>BE\<close> or \<open>LE\<close>, found from left to
  right without overlap, is removed, wherever in the string it stands.
\<close>

fun replace_BE_LE :: "string \<Rightarrow> string" where
  "replace_BE_LE (c # d # rest) =
     (if (c = CHR ''B'' \<or> c = CHR ''L'') \<and> d = CHR ''E'' then replace_BE_LE rest
      else c # replace_BE_LE (d # rest))"
| "replace_BE_LE s = s"

definition endsWith :: "string \<Rightarrow> string \<Rightarrow> bool" where
  "endsWith s suffix =
     (length suffix \<le> length s \<and> drop (length s - length suffix) s = suffix)"

text \<open>
  \<open>rehashTag(tag)\<close>. The first statement assigns the stripped type to \<open>tag.type\<close>, and a
  type that is not a string has no \<open>replace\<close>; the second statement compares the type
  with the enumeration object and discards the result of \<open>lowerCaseType\<close>, so it has no
  effect. The metric literal then reads the tag as the first statement left it. The result
  is the metric and the tag after the call.
\<close>

definition rehashTag :: "schemaMetric \<Rightarrow> js_error + metric \<times> schemaMetric" where
  "rehashTag tag =
     (case tag_type tag of
        JStr ty \<Rightarrow>
          (let ty' = replace_BE_LE ty;
               tag' = tag\<lparr>tag_type := JStr ty'\<rparr>
           in Inr (\<lparr>name = tag_Name tag',
                    malias = Undefined,
                    mtype = ty',
                    mvalue = tag_value tag',
                    timestamp = Undefined,
                    isNull = Undefined,
                    isTransient = JBool (\<not> truthy (tag_recordToDB tag')),
                    properties = Some
                      [(''method'', \<lparr>pvalue = tag_method tag', ptype = ''string''\<rparr>),
                       (''address'', \<lparr>pvalue = tag_address tag', ptype = ''string''\<rparr>),
                       (''path'', \<lparr>pvalue = tag_path tag', ptype = ''string''\<rparr>),
                       (''engUnit'', \<lparr>pvalue = tag_engUnit tag', ptype = ''string''\<rparr>),
                       (''engLow'', \<lparr>pvalue = tag_engLow tag', ptype = ''float''\<rparr>),
                       (''engHigh'', \<lparr>pvalue = tag_engHigh tag', ptype = ''float''\<rparr>),
                       (''deadband'', \<lparr>pvalue = tag_deadBand tag', ptype = ''string''\<rparr>),
                       (''tooltip'', \<lparr>pvalue = tag_tooltip tag', ptype = ''string''\<rparr>),
                       (''documentation'', \<lparr>pvalue = tag_docs tag', ptype = ''string''\<rparr>),
                       (''endianness'',
                          \<lparr>pvalue = (if endsWith ty' ''BE'' then JNum 4321
                                     else if endsWith ty' ''LE'' then JNum 1234
                                     else Null),
                           ptype = ''uInt16''\<rparr>)]\<rparr>,
                   tag'))
      | _ \<Rightarrow> Inl TypeError)"

text \<open>The \<open>endianness\<close> property and the \<open>type\<close> field of the metric that a call returned.\<close>

definition endianness_of :: "js_error + metric \<times> schemaMetric \<Rightarrow> jsval option" where
  "endianness_of r =
     (case r of
        Inl e \<Rightarrow> None
      | Inr mt \<Rightarrow>
          (case properties (fst mt) of
             None \<Rightarrow> None
           | Some ps \<Rightarrow> map_option pvalue (map_of ps ''endianness'')))"

definition type_of_result :: "js_error + metric \<times> schemaMetric \<Rightarrow> string option" where
  "type_of_result r = (case r of Inl e \<Rightarrow> None | Inr mt \<Rightarrow> Some (mtype (fst mt)))"

text \<open>A tag with a declared type \<open>ty\<close>.\<close>

definition sample_schemaMetric :: "string \<Rightarrow> schemaMetric" where
  "sample_schemaMetric ty =
     \<lparr>tag_Name = JStr ''Speed'', tag_value = Undefined, tag_type = JStr ty,
      tag_recordToDB = JBool True, tag_method = JStr ''GET'', tag_address = JStr ''DB1'',
      tag_path = JStr ''0'', tag_engUnit = JStr ''rpm'', tag_engLow = JNum 0,
      tag_engHigh = JNum 100, tag_deadBand = JNum 0, tag_tooltip = JStr [],
      tag_docs = JStr []\<rparr>"

section \<open>The default metrics of a Device\<close>

text \<open>
  The three control metrics that the Device constructor puts in front of the user's
  metrics. \<open>pollInt\<close> is \<open>options.pollInt\<close> and \<open>now\<close> the reading of the clock.
\<close>

definition str_prop :: "string \<Rightarrow> property" where
  "str_prop s = \<lparr>pvalue = JStr s, ptype = ''string''\<rparr>"

definition pollingIntervalMetric :: "jsval \<Rightarrow> int \<Rightarrow> metric" where
  "pollingIntervalMetric pollInt now =
     \<lparr>name = JStr ''Device Control/Polling Interval'', malias = Undefined, mtype = ''uInt16'',
      mvalue = pollInt, timestamp = JNum now, isNull = Undefined, isTransient = JBool True,
      properties = Some
        [(''method'', str_prop []), (''address'', str_prop []), (''path'', str_prop []),
         (''friendlyName'', str_prop ''Device Polling Interval''),
         (''engUnit'', str_prop ''ms''),
         (''engLow'', \<lparr>pvalue = JNum 0, ptype = ''float''\<rparr>),
         (''engHigh'', \<lparr>pvalue = JNum 1, ptype = ''float''\<rparr>),
         (''tooltip'', str_prop ''Polling interval for device metrics in ms.'')]\<rparr>"

definition rebootMetric :: "int \<Rightarrow> metric" where
  "rebootMetric now =
     \<lparr>name = JStr ''Device Control/Reboot'', malias = Undefined, mtype = ''boolean'',
      mvalue = JBool False, timestamp = JNum now, isNull = Undefined, isTransient = JBool True,
      properties = Some
        [(''method'', str_prop []), (''address'', str_prop []), (''path'', str_prop []),
         (''friendlyName'', str_prop ''Reboot Device''),
         (''tooltip'', str_prop ''Issue a reboot device command.'')]\<rparr>"

definition rebirthMetric :: "int \<Rightarrow> metric" where
  "rebirthMetric now =
     \<lparr>name = JStr ''Device Control/Rebirth'', malias = Undefined, mtype = ''boolean'',
      mvalue = JBool False, timestamp = JNum now, isNull = Undefined, isTransient = JBool True,
      properties = Some
        [(''method'', str_prop []), (''address'', str_prop []), (''path'', str_prop []),
         (''friendlyName'', str_prop ''Rebirth Device''),
         (''tooltip'', str_prop ''Request a new device birth certificate.'')]\<rparr>"

definition defaultMetrics :: "jsval \<Rightarrow> int \<Rightarrow> metric list" where
  "defaultMetrics pollInt now =
     [pollingIntervalMetric pollInt now, rebootMetric now, rebirthMetric now]"

section \<open>The Device\<close>

text \<open>
  What a Device does to the outside is recorded, in order, as a list of effects: the three
  kinds of frame handed to the Sparkplug client, the calls on the device connection, the
  calls on the watchdog timer, the request to rewrite the configuration file, and the log
  lines.
\<close>

datatype logmsg =
    LogDisconnected string
  | LogConnected string
  | LogBirthNotConnected
  | LogDCMD jsval jsval
  | LogRebootNotImplemented
  | LogRebirthRequested string
  | LogReadOnly jsval
  | LogWritten string
  | LogError jsval

datatype effect =
    PublishDBirth string "metric list"
  | PublishDData string "metric list"
  | PublishDDeath string
  | ReadMetrics
  | WriteMetrics "metric list"
  | StartSubscription jsval string
  | StopSubscription string
  | RefreshDeathTimer
  | ClearDeathTimer
  | UpdateConfig string jsval
  | Log logmsg

text \<open>
  The state of a Device. \<open>publishDBirth\<close> of the Sparkplug client returns a promise, and
  \<open>isAlive\<close> is set when it resolves: \<open>pendingBirths\<close> counts the promises that have
  not resolved yet. \<open>readyPolling\<close> says that the 100 ms interval of the constructor is
  still running.
\<close>

record Device =
  dev_name :: string
  dev_metrics :: Metrics
  isAlive :: bool
  isConnected :: bool
  payloadFormat :: jsval
  delimiter :: string
  readyPolling :: bool
  pendingBirths :: nat
  effects :: "effect list"

text \<open>
  A handler returns, or raises an exception; either way it leaves a state behind.
\<close>

datatype 'a outcome = Returned 'a | Raised js_error 'a

definition emit :: "effect \<Rightarrow> Device \<Rightarrow> Device" where
  "emit e d = d\<lparr>effects := effects d @ [e]\<rparr>"

subsection \<open>Inbound data\<close>

text \<open>
  The test \<open>(newVal || newVal == 0)\<close>. The comparison is evaluated only when \<open>newVal\<close>
  is falsy, and \<open>loose_eq_zero\<close> is \<open>v == 0\<close> for such a value: \<open>false\<close>, \<open>0\<close>, \<open>-0\<close>,
  \<open>0n\<close> and the empty string are loosely equal to 0, \<open>undefined\<close>, \<open>null\<close> and \<open>NaN\<close> are not.
\<close>

fun loose_eq_zero :: "jsval \<Rightarrow> bool" where
  "loose_eq_zero (JBool b) = (\<not> b)"
| "loose_eq_zero (JNum n) = (n = 0)"
| "loose_eq_zero JNegZero = True"
| "loose_eq_zero (JBigInt n) = (n = 0)"
| "loose_eq_zero (JStr s) = (s = [])"
| "loose_eq_zero v = False"

definition sensible :: "jsval \<Rightarrow> bool" where
  "sensible newVal = (if truthy newVal then True else loose_eq_zero newVal)"

text \<open>
  The condition under which \<open>_handleData\<close> takes a new value:
  \<open>(newVal || newVal == 0) && (((typeof metric.value !== "object") && (metric.value !== newVal))
  || !util.isDeepStrictEqual(metric.value, newVal))\<close>.
\<close>

definition changeFilter :: "jsval \<Rightarrow> jsval \<Rightarrow> bool" where
  "changeFilter cur newVal =
     (sensible newVal \<and>
      ((typeof_not_object cur \<and> strict_neq cur newVal) \<or> \<not> isDeepStrictEqual cur newVal))"

text \<open>
  \<open>parseValueFromPayload\<close> and \<open>parseTimeStampFromPayload\<close> rest on the JSON, JSONPath
  and XML libraries; they are parameters here, functions of the raw message, the metric,
  the payload format and the delimiter that return a value or raise.
\<close>

type_synonym decoder = "jsval \<Rightarrow> metric \<Rightarrow> jsval \<Rightarrow> string \<Rightarrow> js_error + jsval"

text \<open>\<open>typeof metric.properties.path !== "undefined" && metric.properties.path.value\<close>.\<close>

definition path_given :: "metric \<Rightarrow> bool" where
  "path_given m =
     (case properties m of
        None \<Rightarrow> False
      | Some ps \<Rightarrow> (case map_of ps ''path'' of None \<Rightarrow> False | Some p \<Rightarrow> truthy (pvalue p)))"

text \<open>
  The body of \<open>paths.forEach\<close> in \<open>_handleData\<close>, on the store and the list of changed
  metrics. \<open>nkeys\<close> is \<open>Object.keys(obj).length\<close>, \<open>raw\<close> is \<open>obj[addr]\<close> and \<open>now\<close> the
  reading of the clock during the call. Reading \<open>properties\<close> of \<open>undefined\<close> is a
  \<open>TypeError\<close>, and a method of the array has no such property. The setter is called
  with the address and path of the getter and returns the metric that the getter found,
  with the new value; \<open>pushed_metric\<close> is what \<open>changedMetrics.push\<close> appends.
\<close>

definition pushed_metric :: "found \<Rightarrow> metric list" where
  "pushed_metric r = (case r of Found m \<Rightarrow> [m] | _ \<Rightarrow> [])"

definition handle_path ::
  "decoder \<Rightarrow> decoder \<Rightarrow> int \<Rightarrow> jsval \<Rightarrow> string \<Rightarrow> bool \<Rightarrow> nat \<Rightarrow> string \<Rightarrow> jsval \<Rightarrow>
   Metrics \<times> metric list \<Rightarrow> string \<Rightarrow> (Metrics \<times> metric list) outcome" where
  "handle_path parseValue parseTimeStamp now fmt dl parseVals nkeys addr raw st path =
     (let s = fst st; changedMetrics = snd st in
      case getByAddrPath s addr path of
        Inl e \<Rightarrow> Raised e st
      | Inr NotFound \<Rightarrow> Raised TypeError st
      | Inr (BuiltinMethod k) \<Rightarrow> Returned st
      | Inr (Found m) \<Rightarrow>
          (case properties m of
             None \<Rightarrow> Returned st
           | Some ps \<Rightarrow>
               (case method_is_GET ps of
                  Inl e \<Rightarrow> Raised e st
                | Inr g \<Rightarrow>
                    if \<not> g then Returned st
                    else if \<not> parseVals \<or> (parseVals \<and> (path_given m \<or> nkeys = 1)) then
                      (case (if parseVals then parseValue raw m fmt dl else Inr raw) of
                         Inl e \<Rightarrow> Raised e st
                       | Inr newVal \<Rightarrow>
                           if changeFilter (mvalue m) newVal then
                             (case parseTimeStamp raw m fmt dl of
                                Inl e \<Rightarrow> Raised e st
                              | Inr ts \<Rightarrow>
                                  (case setValueByAddrPath s addr path newVal ts now of
                                     Inl e \<Rightarrow> Raised e st
                                   | Inr r \<Rightarrow>
                                       Returned (snd r, changedMetrics @ pushed_metric (fst r))))
                           else Returned st)
                    else Returned st)))"

text \<open>The two loops: over the paths of one address, and over the addresses of \<open>obj\<close>.\<close>

fun handle_paths ::
  "(Metrics \<times> metric list \<Rightarrow> string \<Rightarrow> (Metrics \<times> metric list) outcome) \<Rightarrow>
   string list \<Rightarrow> Metrics \<times> metric list \<Rightarrow> (Metrics \<times> metric list) outcome" where
  "handle_paths body [] st = Returned st"
| "handle_paths body (path # paths) st =
     (case body st path of
        Raised e st' \<Rightarrow> Raised e st'
      | Returned st' \<Rightarrow> handle_paths body paths st')"

fun handle_addrs ::
  "decoder \<Rightarrow> decoder \<Rightarrow> int \<Rightarrow> jsval \<Rightarrow> string \<Rightarrow> bool \<Rightarrow> nat \<Rightarrow>
   (string \<times> jsval) list \<Rightarrow> Metrics \<times> metric list \<Rightarrow> (Metrics \<times> metric list) outcome" where
  "handle_addrs pv pt now fmt dl parseVals nkeys [] st = Returned st"
| "handle_addrs pv pt now fmt dl parseVals nkeys (ar # rest) st =
     (case handle_paths (handle_path pv pt now fmt dl parseVals nkeys (fst ar) (snd ar))
             (getPathsForAddr (fst st) (fst ar)) st of
        Raised e st' \<Rightarrow> Raised e st'
      | Returned st' \<Rightarrow> handle_addrs pv pt now fmt dl parseVals nkeys rest st')"

subsection \<open>Birth, data and death\<close>

definition readMetricsOnce :: "Device \<Rightarrow> Device" where
  "readMetricsOnce d = emit ReadMetrics d"

definition publishDBirth :: "Device \<Rightarrow> bool \<Rightarrow> Device" where
  "publishDBirth d readRequired =
     (if isConnected d then
        (let d1 = (if readRequired then readMetricsOnce d else d);
             d2 = emit (PublishDBirth (dev_name d1) (array (dev_metrics d1))) d1
         in d2\<lparr>pendingBirths := Suc (pendingBirths d2)\<rparr>)
      else emit (Log LogBirthNotConnected) d)"

text \<open>The callback of the promise of \<open>publishDBirth\<close>: \<open>this.#isAlive = true\<close>.\<close>

definition birthAcknowledged :: "Device \<Rightarrow> Device" where
  "birthAcknowledged d =
     (if 0 < pendingBirths d
      then d\<lparr>isAlive := True, pendingBirths := pendingBirths d - 1\<rparr>
      else d)"

definition publishDData :: "Device \<Rightarrow> metric list \<Rightarrow> Device" where
  "publishDData d ms =
     (if isAlive d then emit (PublishDData (dev_name d) ms) d
      else publishDBirth d False)"

definition publishDDeath :: "Device \<Rightarrow> Device" where
  "publishDDeath d =
     (if isConnected d then (emit (PublishDDeath (dev_name d)) d)\<lparr>isAlive := False\<rparr>
      else d)"

definition refreshDeathTimer :: "Device \<Rightarrow> Device" where
  "refreshDeathTimer d = emit RefreshDeathTimer d"

text \<open>The callback of the watchdog timer.\<close>

definition deathTimerExpired :: "Device \<Rightarrow> Device" where
  "deathTimerExpired d = publishDDeath d"

definition deviceDisconnected :: "Device \<Rightarrow> Device" where
  "deviceDisconnected d =
     (publishDDeath (emit (Log (LogDisconnected (dev_name d))) d))\<lparr>isConnected := False\<rparr>"

definition deviceConnected :: "Device \<Rightarrow> Device" where
  "deviceConnected d =
     publishDBirth (emit (Log (LogConnected (dev_name d))) (d\<lparr>isConnected := True\<rparr>)) False"

text \<open>
  \<open>_handleData(obj, parseVals)\<close>. \<open>obj\<close> is the list of its keys and values in the order
  of enumeration.
\<close>

definition handleData ::
  "decoder \<Rightarrow> decoder \<Rightarrow> int \<Rightarrow> Device \<Rightarrow> (string \<times> jsval) list \<Rightarrow> bool \<Rightarrow> Device outcome" where
  "handleData pv pt now d obj parseVals =
     (case handle_addrs pv pt now (payloadFormat d) (delimiter d) parseVals (length obj) obj
             (dev_metrics d, []) of
        Raised e st \<Rightarrow> Raised e (d\<lparr>dev_metrics := fst st\<rparr>)
      | Returned st \<Rightarrow>
          (let d1 = d\<lparr>dev_metrics := fst st\<rparr>;
               d2 = (if snd st \<noteq> [] then publishDData d1 (snd st) else d1)
           in Returned (refreshDeathTimer d2)))"


subsection \<open>Subscription and writes\<close>

definition subscribeToMetricChanges :: "Device \<Rightarrow> Device outcome" where
  "subscribeToMetricChanges d =
     (case getByName (dev_metrics d) ''Device Control/Polling Interval'' of
        Inl e \<Rightarrow> Raised e d
      | Inr None \<Rightarrow> Raised TypeError d
      | Inr (Some m) \<Rightarrow> Returned (emit (StartSubscription (mvalue m) (dev_name d)) d))"

definition stopMetricSubscription :: "Device \<Rightarrow> Device" where
  "stopMetricSubscription d = emit (StopSubscription (dev_name d)) d"

definition writeMetrics :: "Device \<Rightarrow> Metrics \<Rightarrow> Device" where
  "writeMetrics d ms = emit (WriteMetrics (array ms)) d"

text \<open>
  The callback that \<open>#writeMetrics\<close> passes to the connection, for the metrics
  \<open>written\<close> and the error \<open>err\<close> that the connection reports: on success the values are
  mirrored into the store by name and the mirrored metrics are published.
\<close>

fun mirror_written :: "int \<Rightarrow> metric list \<Rightarrow> Metrics \<times> metric list \<Rightarrow> (Metrics \<times> metric list) outcome" where
  "mirror_written now [] st = Returned st"
| "mirror_written now (m # rest) st =
     (if name m = Undefined then mirror_written now rest (fst st, snd st @ [m])
      else
        (case setValueByName (fst st) (toKey (name m)) (mvalue m) Undefined now of
           Inl e \<Rightarrow> Raised e st
         | Inr r \<Rightarrow> mirror_written now rest (snd r, snd st @ [fst r])))"

definition writeCallback :: "int \<Rightarrow> Device \<Rightarrow> metric list \<Rightarrow> jsval \<Rightarrow> Device outcome" where
  "writeCallback now d written err =
     (if \<not> truthy err then
        (case mirror_written now written (dev_metrics d, []) of
           Raised e st \<Rightarrow> Raised e (d\<lparr>dev_metrics := fst st\<rparr>)
         | Returned st \<Rightarrow>
             (let d1 = publishDData (d\<lparr>dev_metrics := fst st\<rparr>) (snd st);
                  d2 = emit (Log (LogWritten (dev_name d1))) d1
              in Returned (refreshDeathTimer d2)))
      else Returned (emit (Log (LogError err)) d))"

subsection \<open>Commands\<close>

definition reboot :: "Device \<Rightarrow> Device" where
  "reboot d = emit (Log LogRebootNotImplemented) d"

text \<open>
  \<open>#updateConfig(key, value)\<close> reads, changes and rewrites \<open>./config/conf.json\<close> in
  callbacks of the file system. The Device only starts this; \<open>rewrite_conf\<close> is the change
  made to \<open>conf.deviceConnections\<close>: in every connection the first device whose
  \<open>deviceId\<close> is the name of this Device gets the key set, the inner loop ending there.
\<close>

definition updateConfig :: "Device \<Rightarrow> string \<Rightarrow> jsval \<Rightarrow> Device" where
  "updateConfig d key v = emit (UpdateConfig key v) d"

record device_entry =
  entry_deviceId :: string
  entry_fields :: "(string \<times> jsval) list"

fun update_first :: "string \<Rightarrow> string \<Rightarrow> jsval \<Rightarrow> device_entry list \<Rightarrow> device_entry list" where
  "update_first nm key v [] = []"
| "update_first nm key v (dev # devs) =
     (if entry_deviceId dev = nm
      then dev\<lparr>entry_fields := AList.update key v (entry_fields dev)\<rparr> # devs
      else dev # update_first nm key v devs)"

definition rewrite_conf :: "string \<Rightarrow> string \<Rightarrow> jsval \<Rightarrow> device_entry list list \<Rightarrow> device_entry list list" where
  "rewrite_conf nm key v deviceConnections = map (update_first nm key v) deviceConnections"

text \<open>
  A 64-bit integer of the payload (a \<open>Long\<close>) is a \<open>JBigInt\<close>; \<open>toNumber()\<close> turns it
  into a number, and only a \<open>Long\<close> has that method.
\<close>

definition long_toNumber :: "int \<Rightarrow> int" where
  "long_toNumber n = (if 0 \<le> n then number_of_u64 n else - number_of_u64 (- n))"

text \<open>
  \<open>if (!metric.name) { metric.alias = metric.alias.toNumber();
  metric.name = this._metrics.getByAlias(metric.alias).name; }\<close>
\<close>

definition resolve_name :: "Metrics \<Rightarrow> metric \<Rightarrow> js_error + metric" where
  "resolve_name s m =
     (if \<not> truthy (name m) then
        (case malias m of
           JBigInt a \<Rightarrow>
             (case getByAlias s (toKey (JNum (long_toNumber a))) of
                Inl e \<Rightarrow> Inl e
              | Inr None \<Rightarrow> Inl TypeError
              | Inr (Some found) \<Rightarrow>
                  Inr (m\<lparr>malias := JNum (long_toNumber a), name := name found\<rparr>))
         | _ \<Rightarrow> Inl TypeError)
      else Inr m)"

text \<open>\<open>{...undefined}\<close>: an object without fields.\<close>

definition blank_metric :: metric where
  "blank_metric =
     \<lparr>name = Undefined, malias = Undefined, mtype = [], mvalue = Undefined,
      timestamp = Undefined, isNull = Undefined, isTransient = Undefined, properties = None\<rparr>"

text \<open>
  \<open>typeof newMetric.properties !== "undefined" && newMetric.properties.method.value !== "GET"\<close>
\<close>

definition writable :: "metric \<Rightarrow> js_error + bool" where
  "writable newMetric =
     (case properties newMetric of
        None \<Rightarrow> Inr False
      | Some ps \<Rightarrow>
          (case map_of ps ''method'' of
             None \<Rightarrow> Inl TypeError
           | Some p \<Rightarrow> Inr (pvalue p \<noteq> JStr ''GET'')))"

text \<open>
  The body of the loop of \<open>_handleDCmd\<close> for one metric of the payload, on the Device and
  the list \<open>metricsToWrite\<close>.
\<close>

definition handle_cmd_metric :: "int \<Rightarrow> Device \<times> metric list \<Rightarrow> metric \<Rightarrow> (Device \<times> metric list) outcome" where
  "handle_cmd_metric now st metric0 =
     (let d = fst st; metricsToWrite = snd st in
      case resolve_name (dev_metrics d) metric0 of
        Inl e \<Rightarrow> Raised e st
      | Inr metric \<Rightarrow>
          (let d1 = emit (Log (LogDCMD (name metric) (mvalue metric))) d in
           if name metric = JStr ''Device Control/Reboot'' then
             Returned (if truthy (mvalue metric) then reboot d1 else d1, metricsToWrite)
           else if name metric = JStr ''Device Control/Rebirth'' then
             Returned
               (if truthy (mvalue metric)
                then publishDBirth (emit (Log (LogRebirthRequested (dev_name d1))) d1) False
                else d1, metricsToWrite)
           else if name metric = JStr ''Device Control/Polling Interval'' then
             (let d2 = stopMetricSubscription d1 in
              case setValueByName (dev_metrics d2) (toKey (name metric)) (mvalue metric)
                     (if truthy (timestamp metric) then timestamp metric else JNum now) now of
                Inl e \<Rightarrow> Raised e (d2, metricsToWrite)
              | Inr r \<Rightarrow>
                  (let d3 = publishDData (d2\<lparr>dev_metrics := snd r\<rparr>) [metric] in
                   case subscribeToMetricChanges d3 of
                     Raised e d4 \<Rightarrow> Raised e (d4, metricsToWrite)
                   | Returned d4 \<Rightarrow>
                       Returned (updateConfig d4 ''pollInt'' (mvalue metric), metricsToWrite)))
           else if name metric \<noteq> Undefined then
             (case getByName (dev_metrics d1) (toKey (name metric)) of
                Inl e \<Rightarrow> Raised e (d1, metricsToWrite)
              | Inr oldMetric \<Rightarrow>
                  (let v = (case mvalue metric of JBigInt n \<Rightarrow> JNum (long_toNumber n) | x \<Rightarrow> x);
                       newMetric = (case oldMetric of None \<Rightarrow> blank_metric | Some old \<Rightarrow> old)
                                     \<lparr>mvalue := v\<rparr>
                   in case writable newMetric of
                        Inl e \<Rightarrow> Raised e (d1, metricsToWrite)
                      | Inr w \<Rightarrow>
                          if w then Returned (d1, metricsToWrite @ [newMetric])
                          else Returned (emit (Log (LogReadOnly (name metric))) d1,
                                         metricsToWrite)))
           else Returned (d1, metricsToWrite)))"

fun handle_cmd_metrics :: "int \<Rightarrow> metric list \<Rightarrow> Device \<times> metric list \<Rightarrow> (Device \<times> metric list) outcome" where
  "handle_cmd_metrics now [] st = Returned st"
| "handle_cmd_metrics now (m # rest) st =
     (case handle_cmd_metric now st m of
        Raised e st' \<Rightarrow> Raised e st'
      | Returned st' \<Rightarrow> handle_cmd_metrics now rest st')"

definition handleDCmd :: "int \<Rightarrow> Device \<Rightarrow> metric list \<Rightarrow> Device outcome" where
  "handleDCmd now d payload_metrics =
     (case handle_cmd_metrics now payload_metrics (d, []) of
        Raised e st \<Rightarrow> Raised e (fst st)
      | Returned st \<Rightarrow>
          if snd st \<noteq> [] then
            (case new_Metrics (snd st) of
               Inl e \<Rightarrow> Raised e (fst st)
             | Inr ms \<Rightarrow> Returned (writeMetrics (fst st) ms))
          else Returned (fst st))"

subsection \<open>Construction, shutdown and runs\<close>

definition stop :: "Device \<Rightarrow> Device" where
  "stop d = emit ClearDeathTimer (stopMetricSubscription d)"

record template =
  template_name :: jsval
  template_properties :: "(string \<times> property) list option"
  template_metrics :: "jsval list"

definition populateTemplates :: "template list \<Rightarrow> metric list" where
  "populateTemplates templates =
     map (\<lambda>t. \<lparr>name = template_name t, malias = Undefined, mtype = ''template'',
                 mvalue = JObj (fmap_of_list [(''isDefinition'', JBool True),
                                              (''metrics'', JArr (template_metrics t))]),
                 timestamp = Undefined, isNull = Undefined, isTransient = Undefined,
                 properties = template_properties t\<rparr>) templates"

record deviceOptions =
  opt_deviceId :: string
  opt_pollInt :: jsval
  opt_payloadFormat :: jsval
  opt_delimiter :: "string option"
  opt_templates :: "template list"

definition new_Device :: "deviceOptions \<Rightarrow> int \<Rightarrow> js_error + Device" where
  "new_Device options now =
     (case new_Metrics (defaultMetrics (opt_pollInt options) now
                          @ populateTemplates (opt_templates options)) of
        Inl e \<Rightarrow> Inl e
      | Inr ms \<Rightarrow>
          Inr \<lparr>dev_name = opt_deviceId options,
               dev_metrics = ms,
               isAlive = False,
               isConnected = False,
               payloadFormat = opt_payloadFormat options,
               delimiter = (case opt_delimiter options of None \<Rightarrow> [] | Some dl \<Rightarrow> dl),
               readyPolling = True,
               pendingBirths = 0,
               effects = []\<rparr>)"

text \<open>One tick of the interval that waits for the connection.\<close>

definition readyTick :: "Device \<Rightarrow> Device outcome" where
  "readyTick d =
     (if readyPolling d \<and> isConnected d then
        (case subscribeToMetricChanges d of
           Raised e d' \<Rightarrow> Raised e d'
         | Returned d' \<Rightarrow> Returned (d'\<lparr>readyPolling := False\<rparr>))
      else Returned d)"

text \<open>\<open>this._metrics.add(options.metrics)\<close>, as the constructors of the device classes call it.\<close>

definition add_metrics :: "Device \<Rightarrow> metric list \<Rightarrow> Device outcome" where
  "add_metrics d ms =
     (case add (dev_metrics d) ms of
        Inl e \<Rightarrow> Raised e d
      | Inr s \<Rightarrow> Returned (d\<lparr>dev_metrics := s\<rparr>))"

text \<open>
  The events that reach a Device, each with the reading of the clock when it is handled.
  A run handles a list of events one after the other, the Device going on from the state
  that a handler left, also when it raised.
\<close>

datatype event =
    Open
  | Close
  | Data "(string \<times> jsval) list" bool
  | DeathTimer
  | BirthAck
  | DBirthRequest
  | DCmd "metric list"
  | WriteDone "metric list" jsval
  | ReadyTick
  | Stop

definition after :: "'a outcome \<Rightarrow> 'a" where
  "after r = (case r of Returned x \<Rightarrow> x | Raised e x \<Rightarrow> x)"

definition step :: "decoder \<Rightarrow> decoder \<Rightarrow> Device \<Rightarrow> event \<times> int \<Rightarrow> Device outcome" where
  "step pv pt d en =
     (case fst en of
        Open \<Rightarrow> Returned (deviceConnected d)
      | Close \<Rightarrow> Returned (deviceDisconnected d)
      | Data obj parseVals \<Rightarrow> handleData pv pt (snd en) d obj parseVals
      | DeathTimer \<Rightarrow> Returned (deathTimerExpired d)
      | BirthAck \<Rightarrow> Returned (birthAcknowledged d)
      | DBirthRequest \<Rightarrow> Returned (publishDBirth d False)
      | DCmd ms \<Rightarrow> handleDCmd (snd en) d ms
      | WriteDone ms err \<Rightarrow> writeCallback (snd en) d ms err
      | ReadyTick \<Rightarrow> readyTick d
      | Stop \<Rightarrow> Returned (stop d))"

definition run :: "decoder \<Rightarrow> decoder \<Rightarrow> Device \<Rightarrow> (event \<times> int) list \<Rightarrow> Device" where
  "run pv pt d evs = foldl (\<lambda>d' en. after (step pv pt d' en)) d evs"

section \<open>Reachable stores and the effect of a setter\<close>



text \<open>
  What a setter does to the metric \<open>m\<close> it is applied to, giving \<open>m'\<close>: the three fields
  are written, the timestamp being the one passed when that is truthy and the clock
  otherwise, and every other field is as before.
\<close>

definition writes_three_fields :: "metric \<Rightarrow> jsval \<Rightarrow> jsval \<Rightarrow> int \<Rightarrow> metric \<Rightarrow> bool" where
  "writes_three_fields m v ts now m' \<longleftrightarrow>
     mvalue m' = v \<and>
     timestamp m' = (if truthy ts then ts else JNum now) \<and>
     isNull m' = JBool (v = Null) \<and>
     name m' = name m \<and> malias m' = malias m \<and> mtype m' = mtype m \<and>
     isTransient m' = isTransient m \<and> properties m' = properties m"

text \<open>
  The timestamp a setter stores according to the specification: the one given, or the
  current time when none is given.
\<close>

definition spec_timestamp :: "jsval \<Rightarrow> int \<Rightarrow> jsval" where
  "spec_timestamp ts now = (if ts = Undefined then JNum now else ts)"

section \<open>Sample metrics\<close>

text \<open>A metric as a driver's configuration declares it, with the three properties that matter to the store.\<close>

definition sample_tag :: "string \<Rightarrow> string \<Rightarrow> string \<Rightarrow> string \<Rightarrow> jsval \<Rightarrow> metric" where
  "sample_tag nm meth addr path v =
     \<lparr>name = JStr nm, malias = Undefined, mtype = ''uInt16'', mvalue = v,
      timestamp = Undefined, isNull = Undefined, isTransient = JBool False,
      properties = Some [(''method'', \<lparr>pvalue = JStr meth, ptype = ''string''\<rparr>),
                         (''address'', \<lparr>pvalue = JStr addr, ptype = ''string''\<rparr>),
                         (''path'', \<lparr>pvalue = JStr path, ptype = ''string''\<rparr>)]\<rparr>"

text \<open>The store that the constructor builds from one readable metric.\<close>

definition sample_store :: Metrics where
  "sample_store =
     \<lparr>array = [sample_tag ''T1'' ''GET'' ''DB1'' ''0'' (JNum 5)],
      addrIndex = [(''DB1'', [0, 0])],
      addrPathIndex = [(''DB1'', [(''0'', 0)])],
      nameIndex = [(''T1'', 0)],
      aliasIndex = []\<rparr>"


text \<open>
  A Device as the constructor of a device class leaves it, with three metrics of its own
  after the three control metrics, and the same Device after its connection opened and the
  birth certificate was acknowledged. The two decoders pass the raw value on and find no
  timestamp.
\<close>

definition sample_options :: deviceOptions where
  "sample_options =
     \<lparr>opt_deviceId = ''dev1'', opt_pollInt = JNum 1000, opt_payloadFormat = JStr ''JSON'',
      opt_delimiter = None, opt_templates = []\<rparr>"

definition sample_metrics :: "metric list" where
  "sample_metrics =
     [sample_tag ''T1'' ''GET'' ''DB1'' ''0'' (JNum 5),
      sample_tag ''T2'' ''PUT'' ''DB2'' ''0'' (JNum 0),
      sample_tag ''T3'' ''GET_STATUS'' ''DB3'' ''0'' (JNum 0)]"

definition sample_device :: Device where
  "sample_device = after (add_metrics (projr (new_Device sample_options 0)) sample_metrics)"

definition raw_decoder :: decoder where
  "raw_decoder raw m fmt dl = Inr raw"

definition no_timestamp :: decoder where
  "no_timestamp raw m fmt dl = Inr Undefined"

definition born_device :: Device where
  "born_device = run raw_decoder no_timestamp sample_device [(Open, 1), (BirthAck, 2)]"


text \<open>
  The value that the first entry of a connection with the device name \<open>nm\<close> has under a
  key, the test for a DATA frame, and a command that sets the polling interval to 2500.
\<close>

definition entry_value :: "string \<Rightarrow> string \<Rightarrow> device_entry list \<Rightarrow> jsval option" where
  "entry_value nm key devs =
     (case find (\<lambda>e. entry_deviceId e = nm) devs of
        None \<Rightarrow> None
      | Some e \<Rightarrow> map_of (entry_fields e) key)"

fun is_data :: "effect \<Rightarrow> bool" where
  "is_data (PublishDData nm ms) = True"
| "is_data e = False"

definition pollInt_cmd :: metric where
  "pollInt_cmd = blank_metric\<lparr>name := JStr ''Device Control/Polling Interval'', mvalue := JNum 2500\<rparr>"


text \<open>
  For a command \<open>c\<close> and a store: the metric of the store that the command names, the
  value of the \<open>method\<close> property of that metric, the metrics that a payload puts on the
  write queue and the lines that it logs. A plain command has a name that is none of the
  three control metrics and names a metric of the store that has a \<open>method\<close> property.
\<close>

definition control_names :: "jsval list" where
  "control_names =
     [JStr ''Device Control/Reboot'', JStr ''Device Control/Rebirth'',
      JStr ''Device Control/Polling Interval'']"

definition cmd_target :: "Metrics \<Rightarrow> metric \<Rightarrow> metric option" where
  "cmd_target s c = (case getByName s (toKey (name c)) of Inl e \<Rightarrow> None | Inr t \<Rightarrow> t)"

definition cmd_method :: "Metrics \<Rightarrow> metric \<Rightarrow> jsval option" where
  "cmd_method s c =
     (case cmd_target s c of
        None \<Rightarrow> None
      | Some t \<Rightarrow>
          (case properties t of
             None \<Rightarrow> None
           | Some ps \<Rightarrow> map_option pvalue (map_of ps ''method'')))"

definition plain_value :: "jsval \<Rightarrow> jsval" where
  "plain_value v = (case v of JBigInt n \<Rightarrow> JNum (long_toNumber n) | x \<Rightarrow> x)"

definition cmd_queue :: "Metrics \<Rightarrow> metric list \<Rightarrow> metric list" where
  "cmd_queue s cs =
     map (\<lambda>c. (case cmd_target s c of None \<Rightarrow> blank_metric | Some t \<Rightarrow> t)
                 \<lparr>mvalue := plain_value (mvalue c)\<rparr>)
       (filter (\<lambda>c. cmd_method s c \<noteq> Some (JStr ''GET'')) cs)"

definition cmd_logs :: "Metrics \<Rightarrow> metric list \<Rightarrow> effect list" where
  "cmd_logs s cs =
     concat (map (\<lambda>c. Log (LogDCMD (name c) (mvalue c)) #
                      (if cmd_method s c = Some (JStr ''GET'') then [Log (LogReadOnly (name c))]
                       else [])) cs)"

definition plain_cmd :: "Metrics \<Rightarrow> metric \<Rightarrow> bool" where
  "plain_cmd s c \<longleftrightarrow>
     truthy (name c) \<and> name c \<notin> set control_names \<and> cmd_method s c \<noteq> None"

definition cmd_T :: "string \<Rightarrow> jsval \<Rightarrow> metric" where
  "cmd_T nm v = blank_metric\<lparr>name := JStr nm, mvalue := v\<rparr>"


text \<open>
  The test for a BIRTH frame. In a list of effects the births come first when the first
  frame that is a BIRTH or a DATA is a BIRTH. The invariant of a Device: in what it has
  done so far the births come first, and when it is alive or waits for an acknowledgement
  it has published a BIRTH.
\<close>

fun is_birth :: "effect \<Rightarrow> bool" where
  "is_birth (PublishDBirth nm ms) = True"
| "is_birth e = False"

fun births_first :: "effect list \<Rightarrow> bool" where
  "births_first [] = True"
| "births_first (e # es) = (if is_birth e then True else if is_data e then False else births_first es)"

definition has_birth :: "effect list \<Rightarrow> bool" where
  "has_birth es = list_ex is_birth es"

definition birth_inv :: "Device \<Rightarrow> bool" where
  "birth_inv d \<longleftrightarrow>
     births_first (effects d) \<and>
     (if isAlive d \<or> 0 < pendingBirths d then has_birth (effects d) else True)"



fun is_frame :: "effect \<Rightarrow> bool" where
  "is_frame (PublishDBirth nm ms) = True"
| "is_frame (PublishDData nm ms) = True"
| "is_frame (PublishDDeath nm) = True"
| "is_frame e = False"

datatype phase = Unborn | Born | Died

fun next_phase :: "phase \<Rightarrow> effect \<Rightarrow> phase option" where
  "next_phase ph (PublishDBirth nm ms) = Some Born"
| "next_phase ph (PublishDData nm ms) = (if ph = Born then Some Born else None)"
| "next_phase ph (PublishDDeath nm) = (if ph = Unborn then None else Some Died)"
| "next_phase ph e = Some ph"

definition phases :: "effect list \<Rightarrow> phase option" where
  "phases es =
     foldl (\<lambda>r e. case r of None \<Rightarrow> None | Some ph \<Rightarrow> next_phase ph e) (Some Unborn) es"

text \<open>
  The invariant of a Device whose acknowledgements arrive in time: its frames are in order,
  it is alive only within an epoch, and connected only after a BIRTH.
\<close>

definition epoch_inv :: "Device \<Rightarrow> bool" where
  "epoch_inv d \<longleftrightarrow>
     phases (effects d) \<noteq> None \<and>
     (isAlive d \<longrightarrow> phases (effects d) = Some Born) \<and>
     (isConnected d \<longrightarrow> phases (effects d) \<noteq> Some Unborn)"

text \<open>
  A run in which every acknowledgement of a BIRTH arrives in time: when the promise of
  \<open>publishDBirth\<close> resolves, no DEATH has been published since the last BIRTH.
\<close>

fun acks_in_time :: "decoder \<Rightarrow> decoder \<Rightarrow> Device \<Rightarrow> (event \<times> int) list \<Rightarrow> bool" where
  "acks_in_time pv pt d [] = True"
| "acks_in_time pv pt d (en # evs) =
     ((if fst en = BirthAck \<and> 0 < pendingBirths d then phases (effects d) = Some Born else True) \<and>
      acks_in_time pv pt (after (step pv pt d en)) evs)"

subsection \<open>The change filter\<close>

text \<open>
  The position that the index by address and path holds for a key, and what makes that
  index sound: the paths of an address are listed once each, and a position that the index
  holds lies in the array and is that of a metric with this address and path.
\<close>

definition key_index :: "Metrics \<Rightarrow> string \<Rightarrow> string \<Rightarrow> nat option" where
  "key_index s a p = map_of (entries (addrPathIndex s) a) p"



fun array_loop ::
  "(jsval \<Rightarrow> metric \<Rightarrow> js_error + metric option) \<Rightarrow> (nat \<times> jsval) list \<Rightarrow>
   metric list \<times> metric list \<Rightarrow> (metric list \<times> metric list) outcome" where
  "array_loop f [] st = Returned st"
| "array_loop f (ir # rest) st =
     (case f (snd ir) (fst st ! fst ir) of
        Inl e \<Rightarrow> Raised e st
      | Inr None \<Rightarrow> array_loop f rest st
      | Inr (Some m') \<Rightarrow> array_loop f rest ((fst st)[fst ir := m'], snd st @ [m']))"








section \<open>Facts about the metric store\<close>


lemma entries_update:
  "entries (AList.update k v al) k' = (if k' = k then v else entries al k')"
  by (simp add: entries_def update_conv')

lemma keys_update: "fst ` set (AList.update k v al) = insert k (fst ` set al)"
  by (simp add: dom_update)

lemma keys_assign_number: "fst ` set (assign_number k i al) \<subseteq> insert k (fst ` set al)"
  by (auto simp: assign_number_def keys_update)

lemma index_metric_cases:
  assumes "index_metric i m s = Inr s'"
  obtains (skip) "index_keys m = Inr None"
      "s' = s\<lparr>nameIndex := assign_number (name_key m) i (nameIndex s)\<rparr>"
  | (indexed) a p where "index_keys m = Inr (Some (a, p))"
      "map_of (addrIndex s) a \<noteq> None \<or> inherited_member a = None"
      "s' = s\<lparr>nameIndex := assign_number (name_key m) i (nameIndex s),
              addrIndex := AList.update a (entries (addrIndex s) a @ [i] @ [i]) (addrIndex s),
              addrPathIndex :=
                AList.update a (assign_number p i (entries (addrPathIndex s) a)) (addrPathIndex s)\<rparr>"
proof (cases "index_keys m")
  case (Inl e)
  with assms show ?thesis by (simp add: index_metric_def)
next
  case (Inr k)
  show ?thesis
  proof (cases k)
    case None
    with Inr assms show ?thesis by (intro skip) (simp_all add: index_metric_def)
  next
    case (Some ap)
    obtain a p where ap: "ap = (a, p)" by (cases ap)
    from assms Inr Some ap
    have c: "\<not> (map_of (addrIndex s) a = None \<and> inherited_member a \<noteq> None)"
      by (auto simp: index_metric_def Let_def split: if_splits)
    show ?thesis
    proof (rule indexed [of a p])
      show "index_keys m = Inr (Some (a, p))" using Inr Some ap by simp
      show "map_of (addrIndex s) a \<noteq> None \<or> inherited_member a = None" using c by auto
      show "s' = s\<lparr>nameIndex := assign_number (name_key m) i (nameIndex s),
              addrIndex := AList.update a (entries (addrIndex s) a @ [i] @ [i]) (addrIndex s),
              addrPathIndex :=
                AList.update a (assign_number p i (entries (addrPathIndex s) a)) (addrPathIndex s)\<rparr>"
        using assms Inr Some ap c by (simp add: index_metric_def Let_def split: if_splits)
    qed
  qed
qed

lemma index_metric_frame:
  assumes "index_metric i m s = Inr s'"
  shows "array s' = array s" and "aliasIndex s' = aliasIndex s"
    and "fst ` set (nameIndex s') \<subseteq> insert (name_key m) (fst ` set (nameIndex s))"
  using assms keys_assign_number [of "name_key m" i "nameIndex s"]
  by (cases rule: index_metric_cases; simp)+

lemma index_metric_addr:
  assumes "index_metric i m s = Inr s'"
  shows "entries (addrIndex s') addr =
           entries (addrIndex s) addr @ (if get_address m = Some addr then [i, i] else [])"
    and "fst ` set (addrIndex s') = fst ` set (addrIndex s) \<union> set_option (get_address m)"
    and "fst ` set (addrPathIndex s') = fst ` set (addrPathIndex s) \<union> set_option (get_address m)"
  using assms
  by (cases rule: index_metric_cases; simp add: keys_update entries_update get_address_def; fail)+


lemma index_metric_total:
  "index_ok m \<Longrightarrow> \<exists>s'. index_metric i m s = Inr s'"
  by (cases "index_keys m")
     (auto simp: index_metric_def index_ok_def Let_def split: option.splits sum.splits)

lemma build_loop_frame:
  "build_loop xs s = Inr s' \<Longrightarrow>
     array s' = array s \<and> aliasIndex s' = aliasIndex s \<and>
     fst ` set (nameIndex s') \<subseteq> fst ` set (nameIndex s) \<union> (\<lambda>im. name_key (snd im)) ` set xs"
proof (induction xs arbitrary: s)
  case Nil
  then show ?case by simp
next
  case (Cons im rest)
  from Cons.prems obtain s1 where s1: "index_metric (fst im) (snd im) s = Inr s1"
    and rest: "build_loop rest s1 = Inr s'"
    by (auto split: sum.splits)
  have n1: "fst ` set (nameIndex s1) \<subseteq> insert (name_key (snd im)) (fst ` set (nameIndex s))"
    using index_metric_frame(3) [OF s1] .
  have n2: "fst ` set (nameIndex s') \<subseteq>
              fst ` set (nameIndex s1) \<union> (\<lambda>im. name_key (snd im)) ` set rest"
    using Cons.IH [OF rest] by simp
  have "fst ` set (nameIndex s') \<subseteq>
          fst ` set (nameIndex s) \<union> (\<lambda>im. name_key (snd im)) ` set (im # rest)"
  proof
    fix k assume "k \<in> fst ` set (nameIndex s')"
    with n2 have "k \<in> fst ` set (nameIndex s1) \<or> k \<in> (\<lambda>im. name_key (snd im)) ` set rest"
      by auto
    with n1 show "k \<in> fst ` set (nameIndex s) \<union> (\<lambda>im. name_key (snd im)) ` set (im # rest)"
      by auto
  qed
  with Cons.IH [OF rest] index_metric_frame(1,2) [OF s1] show ?case by simp
qed

lemma build_loop_addr:
  "build_loop xs s = Inr s' \<Longrightarrow>
     entries (addrIndex s') addr = entries (addrIndex s) addr @ pushed addr xs \<and>
     fst ` set (addrIndex s') =
       fst ` set (addrIndex s) \<union> {a. \<exists>im \<in> set xs. get_address (snd im) = Some a} \<and>
     fst ` set (addrPathIndex s') =
       fst ` set (addrPathIndex s) \<union> {a. \<exists>im \<in> set xs. get_address (snd im) = Some a}"
proof (induction xs arbitrary: s)
  case Nil
  then show ?case by (simp add: pushed_def)
next
  case (Cons im rest)
  from Cons.prems obtain s1 where s1: "index_metric (fst im) (snd im) s = Inr s1"
    and rest: "build_loop rest s1 = Inr s'"
    by (auto split: sum.splits)
  have e: "entries (addrIndex s') addr = entries (addrIndex s) addr @ pushed addr (im # rest)"
    using Cons.IH [OF rest] index_metric_addr(1) [OF s1, of addr] by (simp add: pushed_def)
  have k1: "fst ` set (addrIndex s') =
       fst ` set (addrIndex s) \<union> {a. \<exists>im \<in> set (im # rest). get_address (snd im) = Some a}"
    using Cons.IH [OF rest] index_metric_addr(2) [OF s1] by auto
  have k2: "fst ` set (addrPathIndex s') =
       fst ` set (addrPathIndex s) \<union> {a. \<exists>im \<in> set (im # rest). get_address (snd im) = Some a}"
    using Cons.IH [OF rest] index_metric_addr(3) [OF s1] by auto
  from e k1 k2 show ?case by blast
qed


lemma build_loop_total:
  "(\<And>im. im \<in> set xs \<Longrightarrow> index_ok (snd im)) \<Longrightarrow> \<exists>s'. build_loop xs s = Inr s'"
proof (induction xs arbitrary: s)
  case Nil
  then show ?case by simp
next
  case (Cons im rest)
  from Cons.prems have "index_ok (snd im)" by simp
  then obtain s1 where s1: "index_metric (fst im) (snd im) s = Inr s1"
    using index_metric_total by blast
  from Cons.IH [of s1] Cons.prems obtain s' where "build_loop rest s1 = Inr s'" by auto
  with s1 show ?case by simp
qed

lemma snd_enumerate_image: "snd ` set (enumerate n xs) = set xs"
  by (metis map_snd_enumerate set_map)





lemma buildIndices_addr:
  assumes "buildIndices s = Inr s'"
  shows "array s' = array s"
    and "entries (addrIndex s') addr =
           entries (addrIndex s) addr @ pushed addr (enumerate 0 (array s))"
    and "fst ` set (addrIndex s') =
           fst ` set (addrIndex s) \<union> {a. \<exists>m \<in> set (array s). get_address m = Some a}"
    and "fst ` set (addrPathIndex s') =
           fst ` set (addrPathIndex s) \<union> {a. \<exists>m \<in> set (array s). get_address m = Some a}"
proof -
  have bl: "build_loop (enumerate 0 (array s)) s = Inr s'"
    using assms by (simp add: buildIndices_def)
  have sn: "{a. \<exists>im \<in> set (enumerate 0 (array s)). get_address (snd im) = Some a} =
            {a. \<exists>m \<in> set (array s). get_address m = Some a}"
    using snd_enumerate_image [of 0 "array s"] by (metis (no_types, lifting) image_iff)
  show "array s' = array s" using build_loop_frame [OF bl] by simp
  show "entries (addrIndex s') addr =
           entries (addrIndex s) addr @ pushed addr (enumerate 0 (array s))"
    using build_loop_addr [OF bl] by simp
  show "fst ` set (addrIndex s') =
           fst ` set (addrIndex s) \<union> {a. \<exists>m \<in> set (array s). get_address m = Some a}"
    using build_loop_addr [OF bl, of addr] sn by simp
  show "fst ` set (addrPathIndex s') =
           fst ` set (addrPathIndex s) \<union> {a. \<exists>m \<in> set (array s). get_address m = Some a}"
    using build_loop_addr [OF bl, of addr] sn by simp
qed


lemma buildIndices_total:
  assumes "\<And>m. m \<in> set (array s) \<Longrightarrow> index_ok m"
  shows "\<exists>s'. buildIndices s = Inr s'"
  unfolding buildIndices_def
proof (rule build_loop_total)
  fix im assume "im \<in> set (enumerate 0 (array s))"
  then have "snd im \<in> set (array s)"
    using snd_enumerate_image [of 0 "array s"] by blast
  then show "index_ok (snd im)" by (rule assms)
qed

subsection \<open>C9: what the address index holds after one add\<close>


lemma control_index_keys:
  "index_keys (pollingIntervalMetric p now) = Inr None"
  "index_keys (rebootMetric now) = Inr None"
  "index_keys (rebirthMetric now) = Inr None"
  by (simp_all add: pollingIntervalMetric_def rebootMetric_def rebirthMetric_def index_keys_def
      method_is_GET_def starts_GET_def str_prop_def)


lemma sample_index_keys:
  "index_keys (sample_tag nm meth addr path v) =
     Inr (if starts_GET meth then Some (addr, path) else None)"
  by (simp add: sample_tag_def index_keys_def method_is_GET_def)

lemma not_inherited_DB: "inherited_member (CHR ''D'' # k) = None"
  by (simp add: inherited_member_def prototype_functions_def)

lemma index_metric_simps:
  "index_keys m = Inr None \<Longrightarrow>
     index_metric i m s = Inr (s\<lparr>nameIndex := assign_number (name_key m) i (nameIndex s)\<rparr>)"
  "index_keys m = Inr (Some (a, p)) \<Longrightarrow> inherited_member a = None \<Longrightarrow>
     index_metric i m s =
       Inr (s\<lparr>nameIndex := assign_number (name_key m) i (nameIndex s),
              addrIndex := AList.update a (entries (addrIndex s) a @ [i, i]) (addrIndex s),
              addrPathIndex :=
                AList.update a (assign_number p i (entries (addrPathIndex s) a)) (addrPathIndex s)\<rparr>)"
  by (simp_all add: index_metric_def)

lemma sample_index_ok: "index_ok (sample_tag nm meth (CHR ''D'' # k) path v)"
  by (simp add: index_ok_def sample_index_keys not_inherited_DB)







lemma name_key_assign [simp]: "name_key (assign_value m v ts now) = name_key m"
  by (simp add: name_key_def assign_value_def)

lemma get_address_assign [simp]: "get_address (assign_value m v ts now) = get_address m"
  by (simp add: get_address_def index_keys_def assign_value_def)

lemma name_key_alias [simp]: "name_key (m\<lparr>malias := al\<rparr>) = name_key m"
  by (simp add: name_key_def)

lemma get_address_alias [simp]: "get_address (m\<lparr>malias := al\<rparr>) = get_address m"
  by (simp add: get_address_def index_keys_def)











subsection \<open>C10: lookups and updates on keys that are not registered\<close>






subsection \<open>C8: what a setter writes\<close>

lemma set_at_Some:
  assumes "at_index (array s) i = Some m"
  shows "\<exists>n m'. n < length (array s) \<and> array s ! n = m \<and> writes_three_fields m v ts now m' \<and>
           set_at s i v ts now = Inr (m', s\<lparr>array := (array s)[n := m']\<rparr>)"
proof (cases i)
  case None
  with assms show ?thesis by (simp add: at_index_def)
next
  case (Some n)
  with assms have n: "n < length (array s)" and m: "array s ! n = m"
    by (auto simp: at_index_def split: if_splits)
  have w: "writes_three_fields m v ts now (assign_value m v ts now)"
    by (simp add: writes_three_fields_def assign_value_def)
  have "set_at s i v ts now =
          Inr (assign_value m v ts now, s\<lparr>array := (array s)[n := assign_value m v ts now]\<rparr>)"
    using assms Some by (simp add: set_at_def Let_def)
  with n m w show ?thesis by blast
qed

lemma getByAddrPath_Found:
  assumes "getByAddrPath s addr path = Inr (Found m)"
  obtains i where "select_by_addrPath s addr path = Inr (Position i)"
    "at_index (array s) i = Some m"
proof (cases "select_by_addrPath s addr path")
  case (Inl e)
  with assms show ?thesis by (simp add: getByAddrPath_def)
next
  case (Inr sel)
  show ?thesis
  proof (cases sel)
    case (Position i)
    with Inr assms have "at_index (array s) i = Some m"
      by (simp add: getByAddrPath_def split: option.splits)
    with Inr Position that show ?thesis by simp
  next
    case (ArrayMethod k)
    with Inr assms show ?thesis by (simp add: getByAddrPath_def)
  qed
qed

text \<open>
  Claim C8, amended. Each of the four setters, applied to a key under which the store finds
  the metric \<open>m\<close>, returns the metric \<open>m'\<close> that now stands at the position of \<open>m\<close>;
  \<open>m'\<close> has the new value, the timestamp passed if that is truthy and the current time
  otherwise (so also for a timestamp of 0), \<open>isNull\<close> true exactly when the value is
  \<open>null\<close>, and every other field as in \<open>m\<close>; the rest of the store is unchanged.
\<close>

theorem setters_write_value_timestamp_isNull:
  "(getByName s nm = Inr (Some m) \<longrightarrow>
      (\<exists>n m'. n < length (array s) \<and> array s ! n = m \<and> writes_three_fields m v ts now m' \<and>
         setValueByName s nm v ts now = Inr (m', s\<lparr>array := (array s)[n := m']\<rparr>))) \<and>
   (at_index (array s) (Some i) = Some m \<longrightarrow>
      (\<exists>n m'. n < length (array s) \<and> array s ! n = m \<and> writes_three_fields m v ts now m' \<and>
         setValueByIndex s i v ts now = Inr (m', s\<lparr>array := (array s)[n := m']\<rparr>))) \<and>
   (getByAlias s al = Inr (Some m) \<longrightarrow>
      (\<exists>n m'. n < length (array s) \<and> array s ! n = m \<and> writes_three_fields m v ts now m' \<and>
         setValueByAlias s al v ts now = Inr (m', s\<lparr>array := (array s)[n := m']\<rparr>))) \<and>
   (getByAddrPath s addr path = Inr (Found m) \<longrightarrow>
      (\<exists>n m'. n < length (array s) \<and> array s ! n = m \<and> writes_three_fields m v ts now m' \<and>
         setValueByAddrPath s addr path v ts now =
           Inr (Found m', s\<lparr>array := (array s)[n := m']\<rparr>)))"
proof (intro conjI impI)
  assume "getByName s nm = Inr (Some m)"
  then have "at_index (array s) (map_of (nameIndex s) nm) = Some m" by (simp add: getByName_def)
  from set_at_Some [OF this]
  show "\<exists>n m'. n < length (array s) \<and> array s ! n = m \<and> writes_three_fields m v ts now m' \<and>
         setValueByName s nm v ts now = Inr (m', s\<lparr>array := (array s)[n := m']\<rparr>)"
    by (simp add: setValueByName_def)
next
  assume "at_index (array s) (Some i) = Some m"
  from set_at_Some [OF this]
  show "\<exists>n m'. n < length (array s) \<and> array s ! n = m \<and> writes_three_fields m v ts now m' \<and>
         setValueByIndex s i v ts now = Inr (m', s\<lparr>array := (array s)[n := m']\<rparr>)"
    by (simp add: setValueByIndex_def)
next
  assume "getByAlias s al = Inr (Some m)"
  then have "at_index (array s) (map_of (aliasIndex s) al) = Some m" by (simp add: getByAlias_def)
  from set_at_Some [OF this]
  show "\<exists>n m'. n < length (array s) \<and> array s ! n = m \<and> writes_three_fields m v ts now m' \<and>
         setValueByAlias s al v ts now = Inr (m', s\<lparr>array := (array s)[n := m']\<rparr>)"
    by (simp add: setValueByAlias_def)
next
  assume g: "getByAddrPath s addr path = Inr (Found m)"
  then obtain i where sel: "select_by_addrPath s addr path = Inr (Position i)"
    and at: "at_index (array s) i = Some m"
    by (rule getByAddrPath_Found)
  from set_at_Some [OF at, of v ts now]
  obtain n m' where n: "n < length (array s)" "array s ! n = m"
    "writes_three_fields m v ts now m'"
    and st: "set_at s i v ts now = Inr (m', s\<lparr>array := (array s)[n := m']\<rparr>)"
    by blast
  have "setValueByAddrPath s addr path v ts now =
          Inr (Found m', s\<lparr>array := (array s)[n := m']\<rparr>)"
    using sel st by (simp add: setValueByAddrPath_def)
  with n show "\<exists>n m'. n < length (array s) \<and> array s ! n = m \<and>
         writes_three_fields m v ts now m' \<and>
         setValueByAddrPath s addr path v ts now =
           Inr (Found m', s\<lparr>array := (array s)[n := m']\<rparr>)"
    by blast
qed

theorem setters_write_value_timestamp_isNull_witness:
  "setValueByName sample_store ''T1'' Null (JNum 0) 1700 =
     Inr ((sample_tag ''T1'' ''GET'' ''DB1'' ''0'' Null)
            \<lparr>timestamp := JNum 1700, isNull := JBool True\<rparr>,
          sample_store\<lparr>array := [(sample_tag ''T1'' ''GET'' ''DB1'' ''0'' Null)
            \<lparr>timestamp := JNum 1700, isNull := JBool True\<rparr>]\<rparr>)"
proof -
  let ?m = "sample_tag ''T1'' ''GET'' ''DB1'' ''0'' (JNum 5)"
  have g: "getByName sample_store ''T1'' = Inr (Some ?m)"
    by (simp add: getByName_def sample_store_def at_index_def)
  from setters_write_value_timestamp_isNull [of sample_store "''T1''" ?m Null "JNum 0" 1700] g
  obtain n m' where "n < length (array sample_store)" "array sample_store ! n = ?m"
    "writes_three_fields ?m Null (JNum 0) 1700 m'"
    "setValueByName sample_store ''T1'' Null (JNum 0) 1700 =
       Inr (m', sample_store\<lparr>array := (array sample_store)[n := m']\<rparr>)"
    by blast
  then show ?thesis
    by (simp add: sample_store_def writes_three_fields_def sample_tag_def)
qed

text \<open>
  The claim as it was stated stores the given timestamp; given the timestamp 0 the setter
  stores the current time.
\<close>

theorem setter_zero_timestamp_counterexample:
  "timestamp (fst (projr (setValueByIndex sample_store 0 (JNum 7) (JNum 0) 1700))) = JNum 1700 \<and>
   spec_timestamp (JNum 0) 1700 = JNum 0"
  by (simp add: setValueByIndex_def set_at_def at_index_def sample_store_def assign_value_def
      spec_timestamp_def Let_def)


subsection \<open>C5: decoding a PDP-endian unsigned 32-bit value\<close>

text \<open>
  Claim C5, amended. Decoding a \<open>uInt32\<close> with PDP endianness from four bytes
  \<open>b0 b1 b2 b3\<close> at any offset yields \<open>b1 b0 b3 b2\<close> read big-endian: the two bytes of each
  16-bit word are exchanged, the two words keep their places. The exchange is made in the
  buffer of the caller. For the bytes \<open>01 02 03 04\<close> the value is \<open>0x02010403\<close>.
\<close>

theorem parseValFromBuffer_uInt32_PDP:
  "parseValFromBuffer ''uInt32'' (JNum 3412) (int (length pre)) (pre @ [b0, b1, b2, b3] @ post) bitpos =
     (Inr (Val (JNum (uint b1 * 2 ^ 24 + uint b0 * 2 ^ 16 + uint b3 * 2 ^ 8 + uint b2))),
      pre @ [b1, b0, b3, b2] @ post)"
proof -
  have n: "nat (int (length pre) + 4) = length pre + 4" by simp
  show ?thesis
    by (simp add: parseValFromBuffer_def getEndianString_def read_swapped_def
        swapped_subarray_def clamp_index_def read_with_def read_bytes_def be_val_def Let_def n)
qed

theorem parseValFromBuffer_uInt32_PDP_witness:
  "parseValFromBuffer ''uInt32'' (JNum 3412) 0 [1, 2, 3, 4] None =
     (Inr (Val (JNum 0x02010403)), [2, 1, 4, 3])"
  using parseValFromBuffer_uInt32_PDP [of "[]" 1 2 3 4 "[]" None] by simp

text \<open>The value that the claim as it was stated expects, \<open>0x03040102\<close>, is not the one decoded.\<close>

theorem parseValFromBuffer_uInt32_PDP_counterexample:
  "fst (parseValFromBuffer ''uInt32'' (JNum 3412) 0 [1, 2, 3, 4] None) \<noteq> Inr (Val (JNum 0x03040102))"
  by (simp add: parseValFromBuffer_def getEndianString_def read_swapped_def
      swapped_subarray_def clamp_index_def read_with_def read_bytes_def be_val_def Let_def)

subsection \<open>C3: the endianness that the rehasher derives\<close>

lemma replace_suffix:
  "CHR ''E'' \<notin> set s \<Longrightarrow> c = CHR ''B'' \<or> c = CHR ''L'' \<Longrightarrow>
     replace_BE_LE (s @ [c, CHR ''E'']) = s"
  by (induction s rule: replace_BE_LE.induct) auto

lemma endsWith_E: "CHR ''E'' \<notin> set s \<Longrightarrow> \<not> endsWith s [c, CHR ''E'']"
proof
  assume a: "CHR ''E'' \<notin> set s" and e: "endsWith s [c, CHR ''E'']"
  from e have "drop (length s - 2) s = [c, CHR ''E'']"
    by (simp add: endsWith_def numeral_2_eq_2)
  then have "CHR ''E'' \<in> set (drop (length s - 2) s)" by simp
  then have "CHR ''E'' \<in> set s" by (rule in_set_dropD)
  with a show False by simp
qed

text \<open>
  Claim C3 against the code. For a tag whose declared type is a base name followed by
  \<open>BE\<close> or \<open>LE\<close> (the base name without a capital \<open>E\<close>, as all Sparkplug type names
  are), the metric has the base name as its type, and its \<open>endianness\<close> property is
  \<open>null\<close>, not 4321 or 1234: the suffix is tested on the type after it was stripped.
\<close>

theorem rehashTag_suffix_gives_null_endianness:
  assumes "tag_type tag = JStr (base @ suffix)" and "suffix = ''BE'' \<or> suffix = ''LE''"
    and "CHR ''E'' \<notin> set base"
  shows "endianness_of (rehashTag tag) = Some Null \<and> type_of_result (rehashTag tag) = Some base"
proof -
  from assms(2) obtain c where c: "suffix = [c, CHR ''E'']" "c = CHR ''B'' \<or> c = CHR ''L''"
    by auto
  have r: "replace_BE_LE (base @ suffix) = base"
    using replace_suffix [OF assms(3) c(2)] c(1) by simp
  have "\<not> endsWith base ''BE''" "\<not> endsWith base ''LE''"
    using endsWith_E [OF assms(3)] by auto
  with r assms(1) show ?thesis
    by (simp add: rehashTag_def endianness_of_def type_of_result_def Let_def)
qed

theorem rehashTag_suffix_gives_null_endianness_witness:
  "endianness_of (rehashTag (sample_schemaMetric ''uInt32BE'')) = Some Null \<and>
   type_of_result (rehashTag (sample_schemaMetric ''uInt32BE'')) = Some ''uInt32''"
proof -
  have "tag_type (sample_schemaMetric ''uInt32BE'') = JStr (''uInt32'' @ ''BE'')"
    by (simp add: sample_schemaMetric_def)
  from rehashTag_suffix_gives_null_endianness [OF this]
  show ?thesis by simp
qed


subsection \<open>The sample Device\<close>

lemma name_key_sample: "name_key (sample_tag (c # nm) meth addr p v) = c # nm"
  by (simp add: name_key_def sample_tag_def)

lemma name_key_control:
  "name_key (pollingIntervalMetric p now) = ''Device Control/Polling Interval''"
  "name_key (rebootMetric now) = ''Device Control/Reboot''"
  "name_key (rebirthMetric now) = ''Device Control/Rebirth''"
  by (simp_all add: name_key_def pollingIntervalMetric_def rebootMetric_def rebirthMetric_def)

lemma sample_device_eq:
  "sample_device =
     \<lparr>dev_name = ''dev1'',
      dev_metrics =
        \<lparr>array = defaultMetrics (JNum 1000) 0 @ sample_metrics,
         addrIndex = [(''DB1'', [3, 3]), (''DB3'', [5, 5])],
         addrPathIndex = [(''DB1'', [(''0'', 3)]), (''DB3'', [(''0'', 5)])],
         nameIndex = [(''Device Control/Polling Interval'', 0), (''Device Control/Reboot'', 1),
                      (''Device Control/Rebirth'', 2), (''T1'', 3), (''T2'', 4), (''T3'', 5)],
         aliasIndex = []\<rparr>,
      isAlive = False, isConnected = False, payloadFormat = JStr ''JSON'', delimiter = [],
      readyPolling = True, pendingBirths = 0, effects = []\<rparr>"
  unfolding sample_device_def new_Device_def sample_options_def populateTemplates_def
  by (simp add: new_Metrics_def add_metrics_def add_def buildIndices_def after_def
      defaultMetrics_def sample_metrics_def index_metric_simps control_index_keys
      sample_index_keys starts_GET_def name_key_control name_key_sample entries_def
      not_inherited_DB assign_number_def)


subsection \<open>C7: death on close and on expiry of the watchdog\<close>

text \<open>
  Claim C7, amended. When the connection closes, a connected Device publishes a DEATH frame
  and clears both \<open>isAlive\<close> and \<open>isConnected\<close>. When the watchdog expires, a connected
  Device publishes a DEATH frame and clears \<open>isAlive\<close>; \<open>isConnected\<close> stays as it is. A
  Device that is not connected publishes nothing in either case and keeps \<open>isAlive\<close>.
\<close>

theorem death_on_close_and_on_watchdog:
  "deviceDisconnected d =
     (if isConnected d
      then d\<lparr>effects := effects d @ [Log (LogDisconnected (dev_name d)), PublishDDeath (dev_name d)],
             isAlive := False, isConnected := False\<rparr>
      else d\<lparr>effects := effects d @ [Log (LogDisconnected (dev_name d))]\<rparr>) \<and>
   deathTimerExpired d =
     (if isConnected d
      then d\<lparr>effects := effects d @ [PublishDDeath (dev_name d)], isAlive := False\<rparr>
      else d)"
  by (simp add: deviceDisconnected_def deathTimerExpired_def publishDDeath_def emit_def)

lemma born_device_eq:
  "born_device = sample_device
     \<lparr>isAlive := True, isConnected := True,
      effects := [Log (LogConnected ''dev1''),
                  PublishDBirth ''dev1'' (defaultMetrics (JNum 1000) 0 @ sample_metrics)]\<rparr>"
  by (simp add: born_device_def run_def step_def after_def deviceConnected_def publishDBirth_def
      emit_def birthAcknowledged_def sample_device_eq)

theorem death_on_close_and_on_watchdog_witness:
  "deviceDisconnected born_device =
     born_device\<lparr>effects := effects born_device @ [Log (LogDisconnected ''dev1''), PublishDDeath ''dev1''],
                  isAlive := False, isConnected := False\<rparr> \<and>
   deathTimerExpired born_device =
     born_device\<lparr>effects := effects born_device @ [PublishDDeath ''dev1''], isAlive := False\<rparr>"
  using death_on_close_and_on_watchdog [of born_device]
  by (simp add: born_device_eq sample_device_eq)

text \<open>
  The claim as it was stated has the watchdog clear \<open>isConnected\<close>; after open, birth and
  expiry of the watchdog the flag is still set.
\<close>

theorem watchdog_keeps_isConnected_counterexample:
  "isConnected (run raw_decoder no_timestamp sample_device [(Open, 1), (BirthAck, 2), (DeathTimer, 10002)])"
  by (simp add: run_def step_def after_def deviceConnected_def publishDBirth_def
      emit_def birthAcknowledged_def sample_device_eq deathTimerExpired_def publishDDeath_def)


subsection \<open>C6: the command that changes the polling interval\<close>

lemma update_first_value:
  "entry_value nm key (update_first nm key v devs) =
     (if find (\<lambda>e. entry_deviceId e = nm) devs = None then None else Some v)"
  by (induction devs) (auto simp: entry_value_def update_conv')

lemma update_first_others:
  "filter (\<lambda>e. entry_deviceId e \<noteq> nm) (update_first nm key v devs) =
     filter (\<lambda>e. entry_deviceId e \<noteq> nm) devs"
  "map entry_deviceId (update_first nm key v devs) = map entry_deviceId devs"
  by (induction devs) auto

lemma getByName_SomeD:
  assumes "getByName s nm = Inr (Some m)"
  obtains n where "map_of (nameIndex s) nm = Some n" "n < length (array s)" "array s ! n = m"
  using assms by (auto simp: getByName_def at_index_def split: option.splits if_splits)

lemma setValueByName_registered:
  assumes "map_of (nameIndex s) nm = Some n" "n < length (array s)"
  shows "setValueByName s nm v ts now =
           Inr (assign_value (array s ! n) v ts now,
                s\<lparr>array := (array s)[n := assign_value (array s ! n) v ts now]\<rparr>)"
  using assms by (simp add: setValueByName_def set_at_def at_index_def Let_def)

text \<open>
  Claim C6, amended. A command for \<open>Device Control/Polling Interval\<close>, on a Device
  whose store has that metric, returns after these steps in this order: the subscription is
  stopped; the metric in the store gets the value, the timestamp of the command (the
  current time if it has none) and \<open>isNull\<close>, nothing else in the store changing;
  \<open>_publishDData\<close> is called with the metric of the command, which publishes one DATA
  frame with it if the Device is alive, and otherwise a BIRTH if it is connected and a log
  line if it is not; the subscription is started with the new value, read from the store;
  and the rewrite of the configuration is requested, after which in every connection the
  first entry of this device has the new value under \<open>pollInt\<close> and the entries of the
  other devices are as before.
\<close>

theorem pollingInterval_command:
  assumes nm: "name c = JStr ''Device Control/Polling Interval''"
    and reg: "getByName (dev_metrics d) ''Device Control/Polling Interval'' = Inr (Some m)"
  shows "\<exists>n m' d'.
           handleDCmd now d [c] = Returned d' \<and>
           n < length (array (dev_metrics d)) \<and> array (dev_metrics d) ! n = m \<and>
           writes_three_fields m (mvalue c) (timestamp c) now m' \<and>
           dev_metrics d' = (dev_metrics d)\<lparr>array := (array (dev_metrics d))[n := m']\<rparr> \<and>
           getByName (dev_metrics d') ''Device Control/Polling Interval'' = Inr (Some m') \<and>
           effects d' =
             effects d @
             [Log (LogDCMD (name c) (mvalue c)), StopSubscription (dev_name d)] @
             (if isAlive d then [PublishDData (dev_name d) [c]]
              else if isConnected d then [PublishDBirth (dev_name d) (array (dev_metrics d'))]
              else [Log LogBirthNotConnected]) @
             [StartSubscription (mvalue c) (dev_name d), UpdateConfig ''pollInt'' (mvalue c)] \<and>
           isAlive d' = isAlive d \<and> isConnected d' = isConnected d \<and>
           map (entry_value (dev_name d) ''pollInt'')
               (rewrite_conf (dev_name d) ''pollInt'' (mvalue c) conf) =
             map (\<lambda>devs. if find (\<lambda>e. entry_deviceId e = dev_name d) devs = None then None
                          else Some (mvalue c)) conf \<and>
           map (filter (\<lambda>e. entry_deviceId e \<noteq> dev_name d))
               (rewrite_conf (dev_name d) ''pollInt'' (mvalue c) conf) =
             map (filter (\<lambda>e. entry_deviceId e \<noteq> dev_name d)) conf"
proof -
  let ?PI = "''Device Control/Polling Interval''"
  let ?s = "dev_metrics d"
  let ?ts = "if truthy (timestamp c) then timestamp c else JNum now"
  from reg obtain n where n: "map_of (nameIndex ?s) ?PI = Some n" "n < length (array ?s)"
    "array ?s ! n = m"
    by (rule getByName_SomeD)
  let ?m' = "assign_value m (mvalue c) ?ts now"
  let ?s' = "?s\<lparr>array := (array ?s)[n := ?m']\<rparr>"
  have set: "setValueByName ?s ?PI (mvalue c) ?ts now = Inr (?m', ?s')"
    using setValueByName_registered [OF n(1,2)] n(3) by simp
  have w: "writes_three_fields m (mvalue c) (timestamp c) now ?m'"
    by (simp add: writes_three_fields_def assign_value_def)
  have get': "getByName ?s' ?PI = Inr (Some ?m')"
    using n by (simp add: getByName_def at_index_def)
  have res: "resolve_name ?s c = Inr c"
    using nm by (simp add: resolve_name_def)
  have val: "mvalue ?m' = mvalue c" by (simp add: assign_value_def)
  let ?pub = "(if isAlive d then [PublishDData (dev_name d) [c]]
              else if isConnected d then [PublishDBirth (dev_name d) (array ?s')]
              else [Log LogBirthNotConnected])"
  let ?d' = "d\<lparr>dev_metrics := ?s',
               pendingBirths := (if \<not> isAlive d \<and> isConnected d then Suc (pendingBirths d)
                                 else pendingBirths d),
               effects := effects d @
                 [Log (LogDCMD (name c) (mvalue c)), StopSubscription (dev_name d)] @ ?pub @
                 [StartSubscription (mvalue c) (dev_name d), UpdateConfig ''pollInt'' (mvalue c)]\<rparr>"
  have body: "handle_cmd_metric now (d, []) c = Returned (?d', [])"
    using res nm set get' val
    by (simp add: handle_cmd_metric_def Let_def emit_def stopMetricSubscription_def
        publishDData_def publishDBirth_def subscribeToMetricChanges_def updateConfig_def)
  have h: "handleDCmd now d [c] = Returned ?d'"
    using body by (simp add: handleDCmd_def)
  have c1: "map (entry_value (dev_name d) ''pollInt'')
               (rewrite_conf (dev_name d) ''pollInt'' (mvalue c) conf) =
             map (\<lambda>devs. if find (\<lambda>e. entry_deviceId e = dev_name d) devs = None then None
                          else Some (mvalue c)) conf"
    by (simp add: rewrite_conf_def update_first_value)
  have c2: "map (filter (\<lambda>e. entry_deviceId e \<noteq> dev_name d))
               (rewrite_conf (dev_name d) ''pollInt'' (mvalue c) conf) =
             map (filter (\<lambda>e. entry_deviceId e \<noteq> dev_name d)) conf"
    by (simp add: rewrite_conf_def update_first_others)
  show ?thesis
    apply (rule exI [of _ n], rule exI [of _ ?m'], rule exI [of _ ?d'])
    using h n w get' c1 c2 by simp
qed


lemma born_device_PI:
  "getByName (dev_metrics born_device) ''Device Control/Polling Interval'' =
     Inr (Some (pollingIntervalMetric (JNum 1000) 0))"
  by (simp add: born_device_eq sample_device_eq getByName_def at_index_def defaultMetrics_def)

theorem pollingInterval_command_witness:
  "filter is_data (effects (after (handleDCmd 5 born_device [pollInt_cmd]))) =
     [PublishDData ''dev1'' [pollInt_cmd]] \<and>
   map_option mvalue (projr (getByName (dev_metrics (after (handleDCmd 5 born_device [pollInt_cmd])))
      ''Device Control/Polling Interval'')) = Some (JNum 2500)"
proof -
  have nm: "name pollInt_cmd = JStr ''Device Control/Polling Interval''"
    by (simp add: pollInt_cmd_def)
  from pollingInterval_command [OF nm born_device_PI, of 5 "[]"]
  obtain n m' d' where "handleDCmd 5 born_device [pollInt_cmd] = Returned d'"
    "writes_three_fields (pollingIntervalMetric (JNum 1000) 0) (mvalue pollInt_cmd)
       (timestamp pollInt_cmd) 5 m'"
    "getByName (dev_metrics d') ''Device Control/Polling Interval'' = Inr (Some m')"
    "effects d' =
             effects born_device @
             [Log (LogDCMD (name pollInt_cmd) (mvalue pollInt_cmd)), StopSubscription (dev_name born_device)] @
             (if isAlive born_device then [PublishDData (dev_name born_device) [pollInt_cmd]]
              else if isConnected born_device then [PublishDBirth (dev_name born_device) (array (dev_metrics d'))]
              else [Log LogBirthNotConnected]) @
             [StartSubscription (mvalue pollInt_cmd) (dev_name born_device), UpdateConfig ''pollInt'' (mvalue pollInt_cmd)]"
    by blast
  then show ?thesis
    by (simp add: after_def born_device_eq sample_device_eq writes_three_fields_def pollInt_cmd_def)
qed

text \<open>
  The claim as it was stated publishes one DATA frame; a Device that is connected and not
  yet alive publishes none.
\<close>

theorem pollingInterval_command_not_alive_counterexample:
  "filter is_data
     (effects (run raw_decoder no_timestamp sample_device [(Open, 1), (DCmd [pollInt_cmd], 5)])) = []"
  by (simp add: run_def step_def after_def deviceConnected_def publishDBirth_def emit_def
      sample_device_eq handleDCmd_def handle_cmd_metric_def resolve_name_def pollInt_cmd_def
      blank_metric_def Let_def stopMetricSubscription_def setValueByName_def set_at_def
      at_index_def defaultMetrics_def publishDData_def subscribeToMetricChanges_def
      getByName_def updateConfig_def assign_value_def)


subsection \<open>C4: commands to metrics other than the control metrics\<close>

lemma handle_cmd_metric_plain:
  assumes "plain_cmd (dev_metrics d) c"
  shows "handle_cmd_metric now (d, q) c =
           Returned (d\<lparr>effects := effects d @ cmd_logs (dev_metrics d) [c]\<rparr>,
                     q @ cmd_queue (dev_metrics d) [c])"
proof -
  let ?s = "dev_metrics d"
  from assms have t: "truthy (name c)" and nc: "name c \<notin> set control_names"
    and me: "cmd_method ?s c \<noteq> None"
    by (auto simp: plain_cmd_def)
  from me obtain tg ps p where tg: "getByName ?s (toKey (name c)) = Inr (Some tg)"
    and ps: "properties tg = Some ps" and p: "map_of ps ''method'' = Some p"
    by (auto simp: cmd_method_def cmd_target_def getByName_def split: option.splits sum.splits)
  have cm: "cmd_method ?s c = Some (pvalue p)" "cmd_target ?s c = Some tg"
    using tg ps p by (simp_all add: cmd_method_def cmd_target_def)
  have res: "resolve_name ?s c = Inr c" using t by (simp add: resolve_name_def)
  have und: "name c \<noteq> Undefined" using t by auto
  have w: "writable (tg\<lparr>mvalue := plain_value (mvalue c)\<rparr>) = Inr (pvalue p \<noteq> JStr ''GET'')"
    using ps p by (simp add: writable_def)
  show ?thesis
    using res nc und tg w cm
    by (simp add: handle_cmd_metric_def Let_def control_names_def emit_def cmd_logs_def
        cmd_queue_def plain_value_def)
qed

lemma handle_cmd_metrics_plain:
  assumes "\<forall>c \<in> set cs. plain_cmd (dev_metrics d) c"
  shows "handle_cmd_metrics now cs (d, q) =
           Returned (d\<lparr>effects := effects d @ cmd_logs (dev_metrics d) cs\<rparr>,
                     q @ cmd_queue (dev_metrics d) cs)"
  using assms
proof (induction cs arbitrary: d q)
  case Nil
  then show ?case by (simp add: cmd_logs_def cmd_queue_def)
next
  case (Cons c cs)
  let ?d1 = "d\<lparr>effects := effects d @ cmd_logs (dev_metrics d) [c]\<rparr>"
  have 1: "handle_cmd_metric now (d, q) c = Returned (?d1, q @ cmd_queue (dev_metrics d) [c])"
    using Cons.prems by (intro handle_cmd_metric_plain) simp
  have 2: "\<forall>c \<in> set cs. plain_cmd (dev_metrics ?d1) c" using Cons.prems by simp
  show ?case
    using 1 Cons.IH [OF 2, of "q @ cmd_queue (dev_metrics d) [c]"]
    by (simp add: cmd_logs_def cmd_queue_def)
qed

lemma new_Metrics_array:
  assumes "\<forall>m \<in> set q. index_ok m"
  shows "\<exists>ms. new_Metrics q = Inr ms \<and> array ms = q"
proof -
  let ?e = "\<lparr>array = q, addrIndex = [], addrPathIndex = [], nameIndex = [], aliasIndex = []\<rparr>"
  obtain ms where ms: "buildIndices ?e = Inr ms"
    using buildIndices_total [of ?e] assms by auto
  then have "array ms = q" using buildIndices_addr(1) [OF ms] by simp
  with ms show ?thesis by (simp add: new_Metrics_def)
qed

text \<open>
  Claim C4, amended. A payload of plain commands is handled without an exception (the
  queued metrics being such that the index loop of the store takes them). For a command
  whose target has the method \<open>GET\<close>, exactly, the Device logs that the metric is read
  only, and it writes and publishes nothing for it. Every other command, also one whose
  target has a method that merely starts with \<open>GET\<close>, puts a copy of its target with the
  new value on the queue, and the queue, when not empty, goes to the connection in one
  call of \<open>writeMetrics\<close> after the last command. No frame is published.
\<close>

theorem commands_to_other_metrics:
  assumes "\<forall>c \<in> set cs. plain_cmd (dev_metrics d) c"
    and "\<forall>m \<in> set (cmd_queue (dev_metrics d) cs). index_ok m"
  shows "handleDCmd now d cs =
           Returned (d\<lparr>effects := effects d @ cmd_logs (dev_metrics d) cs @
                        (if cmd_queue (dev_metrics d) cs = [] then []
                         else [WriteMetrics (cmd_queue (dev_metrics d) cs)])\<rparr>)"
proof -
  obtain ms where ms: "new_Metrics (cmd_queue (dev_metrics d) cs) = Inr ms"
    "array ms = cmd_queue (dev_metrics d) cs"
    using new_Metrics_array [OF assms(2)] by blast
  show ?thesis
    using handle_cmd_metrics_plain [OF assms(1), of now "[]"] ms
    by (simp add: handleDCmd_def writeMetrics_def emit_def)
qed

lemma born_cmd_method:
  "cmd_method (dev_metrics born_device) (cmd_T ''T1'' v) = Some (JStr ''GET'')"
  "cmd_method (dev_metrics born_device) (cmd_T ''T2'' v) = Some (JStr ''PUT'')"
  "cmd_method (dev_metrics born_device) (cmd_T ''T3'' v) = Some (JStr ''GET_STATUS'')"
  "cmd_target (dev_metrics born_device) (cmd_T ''T2'' v) = Some (sample_tag ''T2'' ''PUT'' ''DB2'' ''0'' (JNum 0))"
  "cmd_target (dev_metrics born_device) (cmd_T ''T3'' v) = Some (sample_tag ''T3'' ''GET_STATUS'' ''DB3'' ''0'' (JNum 0))"
  by (simp_all add: cmd_method_def cmd_target_def getByName_def at_index_def born_device_eq
      sample_device_eq cmd_T_def blank_metric_def defaultMetrics_def sample_metrics_def
      sample_tag_def)

theorem commands_to_other_metrics_witness:
  "handleDCmd 5 born_device [cmd_T ''T1'' (JNum 7), cmd_T ''T2'' (JNum 8)] =
     Returned (born_device\<lparr>effects := effects born_device @
        [Log (LogDCMD (JStr ''T1'') (JNum 7)), Log (LogReadOnly (JStr ''T1'')),
         Log (LogDCMD (JStr ''T2'') (JNum 8)),
         WriteMetrics [sample_tag ''T2'' ''PUT'' ''DB2'' ''0'' (JNum 8)]]\<rparr>)"
proof -
  let ?cs = "[cmd_T ''T1'' (JNum 7), cmd_T ''T2'' (JNum 8)]"
  have q: "cmd_queue (dev_metrics born_device) ?cs = [sample_tag ''T2'' ''PUT'' ''DB2'' ''0'' (JNum 8)]"
    by (simp add: cmd_queue_def born_cmd_method plain_value_def)
       (simp add: cmd_T_def blank_metric_def sample_tag_def)
  have 1: "\<forall>c \<in> set ?cs. plain_cmd (dev_metrics born_device) c"
    by (simp add: plain_cmd_def born_cmd_method)
       (simp add: cmd_T_def blank_metric_def control_names_def)
  have 2: "\<forall>m \<in> set (cmd_queue (dev_metrics born_device) ?cs). index_ok m"
    by (simp add: q sample_index_ok)
  from commands_to_other_metrics [OF 1 2, of 5] q
  show ?thesis
    by (simp add: cmd_logs_def born_cmd_method)
       (simp add: cmd_T_def blank_metric_def)
qed

text \<open>
  The claim as it was stated treats every method that starts with \<open>GET\<close> as read only; a
  command to a metric with the method \<open>GET_STATUS\<close> is written to the connection and no
  line says that the metric is read only.
\<close>

theorem command_to_GET_prefixed_method_counterexample:
  "starts_GET ''GET_STATUS'' \<and>
   cmd_method (dev_metrics born_device) (cmd_T ''T3'' (JNum 7)) = Some (JStr ''GET_STATUS'') \<and>
   handleDCmd 5 born_device [cmd_T ''T3'' (JNum 7)] =
     Returned (born_device\<lparr>effects := effects born_device @
        [Log (LogDCMD (JStr ''T3'') (JNum 7)),
         WriteMetrics [sample_tag ''T3'' ''GET_STATUS'' ''DB3'' ''0'' (JNum 7)]]\<rparr>)"
proof -
  let ?cs = "[cmd_T ''T3'' (JNum 7)]"
  have q: "cmd_queue (dev_metrics born_device) ?cs = [sample_tag ''T3'' ''GET_STATUS'' ''DB3'' ''0'' (JNum 7)]"
    by (simp add: cmd_queue_def born_cmd_method plain_value_def)
       (simp add: cmd_T_def blank_metric_def sample_tag_def)
  have 1: "\<forall>c \<in> set ?cs. plain_cmd (dev_metrics born_device) c"
    by (simp add: plain_cmd_def born_cmd_method)
       (simp add: cmd_T_def blank_metric_def control_names_def)
  have 2: "\<forall>m \<in> set (cmd_queue (dev_metrics born_device) ?cs). index_ok m"
    by (simp add: q sample_index_ok)
  have "handleDCmd 5 born_device ?cs =
     Returned (born_device\<lparr>effects := effects born_device @
        [Log (LogDCMD (JStr ''T3'') (JNum 7)),
         WriteMetrics [sample_tag ''T3'' ''GET_STATUS'' ''DB3'' ''0'' (JNum 7)]]\<rparr>)"
    using handle_cmd_metrics_plain [OF 1, of 5 "[]"] new_Metrics_array [OF 2] q
    by (auto simp: handleDCmd_def writeMetrics_def emit_def cmd_logs_def born_cmd_method)
       (simp_all add: cmd_T_def blank_metric_def)
  then show ?thesis by (simp add: born_cmd_method starts_GET_def)
qed


subsection \<open>C2: a BIRTH before the first DATA\<close>



lemma has_birth_snoc [simp]: "has_birth (es @ [e]) = (has_birth es \<or> is_birth e)"
  by (auto simp: has_birth_def)



lemma inv_fields [simp]:
  "birth_inv (d\<lparr>dev_metrics := s\<rparr>) = birth_inv d"
  "birth_inv (d\<lparr>readyPolling := r\<rparr>) = birth_inv d"
  "birth_inv (d\<lparr>isConnected := c\<rparr>) = birth_inv d"
  by (simp_all add: birth_inv_def)







lemma after_simps [simp]: "after (Returned x) = x" "after (Raised e x) = x"
  by (simp_all add: after_def)
















lemma ep_fields [simp]:
  "epoch_inv (d\<lparr>dev_metrics := s\<rparr>) = epoch_inv d"
  "epoch_inv (d\<lparr>readyPolling := r\<rparr>) = epoch_inv d"
  "epoch_inv (d\<lparr>pendingBirths := n\<rparr>) = epoch_inv d"
  by (simp_all add: epoch_inv_def)



























lemma object_keys_single: "object_keys [(k, v)] = [k]"
  by (simp add: object_keys_def)

lemma sample_handle_DB1:
  assumes "dev_metrics d = dev_metrics sample_device" "changeFilter (JNum 5) v"
  shows "handle_addrs raw_decoder no_timestamp now fmt dl False (Suc 0) [(''DB1'', v)] (dev_metrics d, []) =
     Returned ((dev_metrics d)\<lparr>array := (array (dev_metrics d))
                  [3 := assign_value (sample_tag ''T1'' ''GET'' ''DB1'' ''0'' (JNum 5)) v Undefined now]\<rparr>,
               [assign_value (sample_tag ''T1'' ''GET'' ''DB1'' ''0'' (JNum 5)) v Undefined now])"
proof -
  have sel: "select_by_addrPath (dev_metrics sample_device) ''DB1'' ''0'' = Inr (Position (Some 3))"
    by (simp add: select_by_addrPath_def sample_device_eq)
  have g: "getByAddrPath (dev_metrics sample_device) ''DB1'' ''0'' =
             Inr (Found (sample_tag ''T1'' ''GET'' ''DB1'' ''0'' (JNum 5)))"
    by (simp add: getByAddrPath_def sel)
       (simp add: sample_device_eq at_index_def defaultMetrics_def sample_metrics_def)
  have p: "getPathsForAddr (dev_metrics sample_device) ''DB1'' = [''0'']"
    by (simp add: getPathsForAddr_def sample_device_eq entries_def object_keys_single)
  have s: "setValueByAddrPath (dev_metrics sample_device) ''DB1'' ''0'' v Undefined now =
     Inr (Found (assign_value (sample_tag ''T1'' ''GET'' ''DB1'' ''0'' (JNum 5)) v Undefined now),
          (dev_metrics sample_device)\<lparr>array := (array (dev_metrics sample_device))
                  [3 := assign_value (sample_tag ''T1'' ''GET'' ''DB1'' ''0'' (JNum 5)) v Undefined now]\<rparr>)"
    by (simp add: setValueByAddrPath_def sel)
       (simp add: set_at_def sample_device_eq at_index_def Let_def
        defaultMetrics_def sample_metrics_def)
  have m: "properties (sample_tag ''T1'' ''GET'' ''DB1'' ''0'' (JNum 5)) =
             Some [(''method'', \<lparr>pvalue = JStr ''GET'', ptype = ''string''\<rparr>),
                   (''address'', \<lparr>pvalue = JStr ''DB1'', ptype = ''string''\<rparr>),
                   (''path'', \<lparr>pvalue = JStr ''0'', ptype = ''string''\<rparr>)]"
     "mvalue (sample_tag ''T1'' ''GET'' ''DB1'' ''0'' (JNum 5)) = JNum 5"
    by (simp_all add: sample_tag_def)
  show ?thesis
    using assms(2)
    by (simp add: assms(1) p handle_path_def g m method_is_GET_def starts_GET_def
        raw_decoder_def no_timestamp_def s Let_def pushed_metric_def)
qed

lemma cf75: "changeFilter (JNum 5) (JNum 7)"
  by (simp add: changeFilter_def sensible_def strict_neq_def strict_eq_def)

lemma sample_handleData:
  assumes "dev_metrics d = dev_metrics sample_device" "changeFilter (JNum 5) v"
  shows "handleData raw_decoder no_timestamp now d [(''DB1'', v)] False =
     Returned (refreshDeathTimer (publishDData
       (d\<lparr>dev_metrics := (dev_metrics d)\<lparr>array := (array (dev_metrics d))
                  [3 := assign_value (sample_tag ''T1'' ''GET'' ''DB1'' ''0'' (JNum 5)) v Undefined now]\<rparr>\<rparr>)
       [assign_value (sample_tag ''T1'' ''GET'' ''DB1'' ''0'' (JNum 5)) v Undefined now]))"
  using sample_handle_DB1 [OF assms, of now "payloadFormat d" "delimiter d"]
  by (simp add: handleData_def Let_def del: handle_addrs.simps)

lemma run_snoc: "run pv pt d (evs @ [en]) = after (step pv pt (run pv pt d evs) en)"
  by (simp add: run_def)





text \<open>
  What the amended claim leaves out. The promise of \<open>publishDBirth\<close> sets \<open>isAlive\<close>
  whenever it resolves. When it resolves after the DEATH that followed the BIRTH, the
  Device is alive again without a new BIRTH, and its next data is published as a DATA frame
  right after the DEATH.
\<close>

lemma late_acknowledgement:
  "filter is_frame (effects (run raw_decoder no_timestamp sample_device
       [(Open, 1), (Close, 2), (BirthAck, 3), (Data [(''DB1'', JNum 7)] False, 5)])) =
     [PublishDBirth ''dev1'' (defaultMetrics (JNum 1000) 0 @ sample_metrics),
      PublishDDeath ''dev1'',
      PublishDData ''dev1''
        [assign_value (sample_tag ''T1'' ''GET'' ''DB1'' ''0'' (JNum 5)) (JNum 7) Undefined 5]] \<and>
   \<not> acks_in_time raw_decoder no_timestamp sample_device
       [(Open, 1), (Close, 2), (BirthAck, 3), (Data [(''DB1'', JNum 7)] False, 5)]"
proof
  let ?d3 = "run raw_decoder no_timestamp sample_device [(Open, 1), (Close, 2), (BirthAck, 3)]"
  have d3: "?d3 = sample_device
     \<lparr>isAlive := True,
      effects := [Log (LogConnected ''dev1''),
                  PublishDBirth ''dev1'' (defaultMetrics (JNum 1000) 0 @ sample_metrics),
                  Log (LogDisconnected ''dev1''), PublishDDeath ''dev1'']\<rparr>"
    by (simp add: run_def step_def after_def deviceConnected_def publishDBirth_def
        emit_def birthAcknowledged_def sample_device_eq publishDDeath_def deviceDisconnected_def)
  have dm: "dev_metrics ?d3 = dev_metrics sample_device" by (simp add: d3)
  have r: "run raw_decoder no_timestamp sample_device
       [(Open, 1), (Close, 2), (BirthAck, 3), (Data [(''DB1'', JNum 7)] False, 5)] =
     after (handleData raw_decoder no_timestamp 5 ?d3 [(''DB1'', JNum 7)] False)"
    using run_snoc [of raw_decoder no_timestamp sample_device "[(Open, 1), (Close, 2), (BirthAck, 3)]"
            "(Data [(''DB1'', JNum 7)] False, 5)"]
    by (simp add: step_def)
  show "filter is_frame (effects (run raw_decoder no_timestamp sample_device
       [(Open, 1), (Close, 2), (BirthAck, 3), (Data [(''DB1'', JNum 7)] False, 5)])) =
     [PublishDBirth ''dev1'' (defaultMetrics (JNum 1000) 0 @ sample_metrics),
      PublishDDeath ''dev1'',
      PublishDData ''dev1''
        [assign_value (sample_tag ''T1'' ''GET'' ''DB1'' ''0'' (JNum 5)) (JNum 7) Undefined 5]]"
    unfolding r sample_handleData [OF dm cf75]
    by (simp add: publishDData_def emit_def refreshDeathTimer_def d3)
       (simp add: sample_device_eq)
  show "\<not> acks_in_time raw_decoder no_timestamp sample_device
       [(Open, 1), (Close, 2), (BirthAck, 3), (Data [(''DB1'', JNum 7)] False, 5)]"
    by (simp add: step_def deviceConnected_def publishDBirth_def emit_def sample_device_eq
        phases_def publishDDeath_def deviceDisconnected_def)
qed


subsection \<open>C1: the change filter and repeated data\<close>

lemma index_keys_assign [simp]: "index_keys (assign_value m v ts now) = index_keys m"
  by (simp add: index_keys_def assign_value_def)

lemma index_keys_alias [simp]: "index_keys (m\<lparr>malias := al\<rparr>) = index_keys m"
  by (simp add: index_keys_def)














lemma path_given_assign [simp]: "path_given (assign_value m v ts now) = path_given m"
  by (simp add: path_given_def assign_value_def)





lemma array_loop_Raised_length:
  "array_loop f irs (arr, ch) = Raised e (arr1, ch1) \<Longrightarrow> length arr1 = length arr"
proof (induction irs arbitrary: arr ch)
  case Nil
  then show ?case by simp
next
  case (Cons ir rest)
  then show ?case
    by (cases "f (snd ir) (arr ! fst ir)") (auto split: option.splits)
qed




lemma key_index_array [simp]: "key_index (s\<lparr>array := arr\<rparr>) a p = key_index s a p"
  by (simp add: key_index_def)

lemma getPathsForAddr_array [simp]: "getPathsForAddr (s\<lparr>array := arr\<rparr>) a = getPathsForAddr s a"
  by (simp add: getPathsForAddr_def)
















end
